theory Spec2Isabelle
  imports Main "HOL-Library.Word"
begin

unbundle bit_operations_syntax

section \<open>Machine types and the byte buffer\<close>

text \<open>
  The programs are ns-3 applications written in C++. Their counters and sequence numbers
  are \<^verbatim>\<open>uint32_t\<close>, modelled as 32-bit words (addition wraps). A packet is the
  sequence of its bytes; \<^verbatim>\<open>Create<Packet>(n)\<close> makes n zero bytes, and
  \<^verbatim>\<open>GetSize\<close> is the number of bytes, protocol headers added so far included.
\<close>

type_synonym u8 = "8 word"
type_synonym u32 = "32 word"
type_synonym Buffer = "u8 list"
type_synonym Packet = "u8 list"

text \<open>
  An ns-3 \<^verbatim>\<open>Address\<close> is a tagged value: the empty address of the default
  constructor, a bare IPv4 address, or a socket address, which is an IPv4 address with a
  port.
\<close>

datatype Address = NoAddress | Ipv4Address u32 | InetSocketAddress u32 "16 word"

text \<open>
  \<open>BufferOverrun\<close> is a read through a buffer iterator past the last byte: ns-3 checks it
  with an assertion only (the process aborts in a debug build, and reads memory outside
  the packet in an optimised one). \<open>MalformedSegment\<close> is the rejection of a too-short
  segment that the design document names; no path of \<^verbatim>\<open>ReliableHeader\<close> produces it.
\<close>

datatype error = BufferOverrun | MalformedSegment

definition Create :: "u32 \<Rightarrow> Packet" where
  "Create n = replicate (unat n) 0"

definition GetSize :: "Packet \<Rightarrow> u32" where
  "GetSize p = of_nat (length p)"

text \<open>The iterator's writers append to what has been written; the readers consume from
  the front and give back the rest.\<close>

definition WriteU8 :: "u8 \<Rightarrow> Buffer \<Rightarrow> Buffer" where
  "WriteU8 b buf = buf @ [b]"

definition WriteHtonU32 :: "u32 \<Rightarrow> Buffer \<Rightarrow> Buffer" where
  "WriteHtonU32 d buf =
     buf @ [ucast (drop_bit 24 d), ucast (drop_bit 16 d), ucast (drop_bit 8 d), ucast d]"

fun ReadU8 :: "Buffer \<Rightarrow> error + (u8 \<times> Buffer)" where
  "ReadU8 [] = Inl BufferOverrun"
| "ReadU8 (b # bs) = Inr (b, bs)"

fun ReadNtohU32 :: "Buffer \<Rightarrow> error + (u32 \<times> Buffer)" where
  "ReadNtohU32 (b0 # b1 # b2 # b3 # bs) =
     Inr (push_bit 8 (push_bit 8 (push_bit 8 (ucast b0) OR ucast b1) OR ucast b2) OR ucast b3,
          bs)"
| "ReadNtohU32 bs = Inl BufferOverrun"

section \<open>ReliableHeader\<close>

record ReliableHeader =
  hdr_sequenceNumber :: u32
  hdr_ackNumber :: u32
  hdr_isAck :: bool

text \<open>The default constructor.\<close>

definition ReliableHeader_new :: ReliableHeader where
  "ReliableHeader_new = \<lparr>hdr_sequenceNumber = 0, hdr_ackNumber = 0, hdr_isAck = False\<rparr>"

text \<open>\<^verbatim>\<open>sizeof(uint32_t) + sizeof(uint32_t) + sizeof(bool)\<close>\<close>

definition GetSerializedSize :: u32 where
  "GetSerializedSize = 4 + 4 + 1"

definition Serialize :: "ReliableHeader \<Rightarrow> Buffer" where
  "Serialize h =
     WriteU8 (if hdr_isAck h then 1 else 0)
       (WriteHtonU32 (hdr_ackNumber h) (WriteHtonU32 (hdr_sequenceNumber h) []))"

text \<open>\<^verbatim>\<open>Deserialize\<close> reads the three fields in turn, with no check of how many
  bytes there are, and returns the header with the number of bytes it consumed.\<close>

definition Deserialize :: "Buffer \<Rightarrow> error + (ReliableHeader \<times> u32)" where
  "Deserialize start =
     (case ReadNtohU32 start of
        Inl e \<Rightarrow> Inl e
      | Inr (sq, r1) \<Rightarrow>
          (case ReadNtohU32 r1 of
             Inl e \<Rightarrow> Inl e
           | Inr (ak, r2) \<Rightarrow>
               (case ReadU8 r2 of
                  Inl e \<Rightarrow> Inl e
                | Inr (fl, r3) \<Rightarrow>
                    Inr (\<lparr>hdr_sequenceNumber = sq, hdr_ackNumber = ak, hdr_isAck = (fl = 1)\<rparr>,
                         GetSerializedSize))))"

text \<open>\<^verbatim>\<open>Packet::AddHeader\<close> puts the serialised header in front of the packet;
  \<^verbatim>\<open>Packet::RemoveHeader\<close> deserialises from the first byte and drops as many
  bytes as \<^verbatim>\<open>Deserialize\<close> reports.\<close>

definition AddHeader :: "ReliableHeader \<Rightarrow> Packet \<Rightarrow> Packet" where
  "AddHeader h p = Serialize h @ p"

definition RemoveHeader :: "Packet \<Rightarrow> error + (ReliableHeader \<times> Packet)" where
  "RemoveHeader p =
     (case Deserialize p of
        Inl e \<Rightarrow> Inl e
      | Inr (h, n) \<Rightarrow> Inr (h, drop (unat n) p))"

section \<open>ReliableServer\<close>

record ReliableServer =
  srv_expectedSequence :: u32
  srv_totalPacketsReceived :: u32
  srv_totalBytesReceived :: u32

definition ReliableServer_new :: ReliableServer where
  "ReliableServer_new =
     \<lparr>srv_expectedSequence = 0, srv_totalPacketsReceived = 0, srv_totalBytesReceived = 0\<rparr>"

text \<open>
  One turn of the receive loop of \<^verbatim>\<open>ReliableServer::HandleRead\<close>, for a packet
  received from \<open>from\<close>. The result is the server and the packets handed to
  \<^verbatim>\<open>SendTo\<close>, each with its destination.
\<close>

definition ReliableServer_HandleRead1 ::
  "ReliableServer \<Rightarrow> Packet \<times> Address \<Rightarrow> error + (ReliableServer \<times> (Packet \<times> Address) list)"
where
  "ReliableServer_HandleRead1 s pf =
     (case RemoveHeader (fst pf) of
        Inl e \<Rightarrow> Inl e
      | Inr (header, packet) \<Rightarrow>
          (let packetSize = GetSize packet;
               s1 = s\<lparr>srv_totalBytesReceived := srv_totalBytesReceived s + packetSize\<rparr>
           in if \<not> hdr_isAck header then
                (let sq = hdr_sequenceNumber header
                 in if sq = srv_expectedSequence s1 then
                      (let s2 = s1\<lparr>srv_totalPacketsReceived := srv_totalPacketsReceived s1 + 1\<rparr>;
                           s3 = s2\<lparr>srv_expectedSequence := srv_expectedSequence s2 + 1\<rparr>;
                           ackPacket = Create 0;
                           ackHeader = ReliableHeader_new\<lparr>hdr_isAck := True, hdr_ackNumber := sq\<rparr>
                       in Inr (s3, [(AddHeader ackHeader ackPacket, snd pf)]))
                    else Inr (s1, []))
              else Inr (s1, [])))"

text \<open>The loop \<^verbatim>\<open>while ((packet = socket->RecvFrom(from)))\<close> over the packets
  queued at the socket.\<close>

fun ReliableServer_HandleRead ::
  "ReliableServer \<Rightarrow> (Packet \<times> Address) list \<Rightarrow> error + (ReliableServer \<times> (Packet \<times> Address) list)"
where
  "ReliableServer_HandleRead s [] = Inr (s, [])"
| "ReliableServer_HandleRead s (pf # rest) =
     (case ReliableServer_HandleRead1 s pf of
        Inl e \<Rightarrow> Inl e
      | Inr (s1, out1) \<Rightarrow>
          (case ReliableServer_HandleRead s1 rest of
             Inl e \<Rightarrow> Inl e
           | Inr (s2, out2) \<Rightarrow> Inr (s2, out1 @ out2)))"

section \<open>The ns-3 simulator's event queue\<close>

text \<open>
  Time is the simulator's integer count of nanoseconds. \<^verbatim>\<open>Simulator::Schedule\<close>
  queues a callback and returns a handle (an \<^verbatim>\<open>EventId\<close>: the event's uid);
  a default-constructed handle refers to no event. An event is pending from the moment it
  is scheduled until it is run or cancelled. The queue runs the event with the least time
  stamp, and among equal stamps the one scheduled first.
\<close>

type_synonym Time = int
type_synonym EventId = "nat option"

definition Seconds :: "int \<Rightarrow> Time" where
  "Seconds n = n * 1000000000"

definition MilliSeconds :: "int \<Rightarrow> Time" where
  "MilliSeconds n = n * 1000000"

datatype Callback =
    SendPacketCb
  | TimeoutHandlerCb u32
  | Deliver Address Address Packet

record Event =
  ev_ts :: Time
  ev_uid :: nat
  ev_cb :: Callback

record Simulator =
  sim_now :: Time
  sim_uid :: nat
  sim_events :: "Event list"

definition Schedule :: "Time \<Rightarrow> Callback \<Rightarrow> Simulator \<Rightarrow> EventId \<times> Simulator" where
  "Schedule delay cb sim =
     (Some (sim_uid sim),
      sim\<lparr>sim_uid := sim_uid sim + 1,
          sim_events := sim_events sim @
            [\<lparr>ev_ts = sim_now sim + delay, ev_uid = sim_uid sim, ev_cb = cb\<rparr>]\<rparr>)"

definition IsPending :: "EventId \<Rightarrow> Simulator \<Rightarrow> bool" where
  "IsPending ev sim =
     (case ev of None \<Rightarrow> False | Some u \<Rightarrow> u \<in> set (map ev_uid (sim_events sim)))"

definition Cancel :: "EventId \<Rightarrow> Simulator \<Rightarrow> Simulator" where
  "Cancel ev sim = sim\<lparr>sim_events := filter (\<lambda>e. Some (ev_uid e) \<noteq> ev) (sim_events sim)\<rparr>"

definition earlier :: "Event \<Rightarrow> Event \<Rightarrow> bool" where
  "earlier a b = (ev_ts a < ev_ts b \<or> (ev_ts a = ev_ts b \<and> ev_uid a < ev_uid b))"

fun next_event :: "Event list \<Rightarrow> Event option" where
  "next_event [] = None"
| "next_event (e # es) =
     (case next_event es of
        None \<Rightarrow> Some e
      | Some m \<Rightarrow> if earlier m e then Some m else Some e)"

text \<open>Taking an event off the queue to run it: the clock moves to its time stamp.\<close>

definition fire :: "Event \<Rightarrow> Simulator \<Rightarrow> Simulator" where
  "fire e sim = sim\<lparr>sim_now := ev_ts e, sim_events := remove1 e (sim_events sim)\<rparr>"

section \<open>ReliableClient\<close>

record ReliableClient =
  cli_peerAddress :: Address
  cli_peerPort :: "16 word"
  cli_sequenceNumber :: u32
  cli_nextSequence :: u32
  cli_totalPacketsSent :: u32
  cli_retransmissions :: u32
  cli_totalBytesSent :: u32
  cli_timerEvent :: EventId
  cli_timeout :: Time
  cli_maxPackets :: u32
  cli_interval :: Time
  cli_packetSize :: u32
  cli_waitingForAck :: bool
  cli_pendingAckSequence :: u32

text \<open>The constructor, with the default values of the four attributes. It leaves
  \<^verbatim>\<open>m_peerPort\<close> uninitialised; the field is 0 here, and no function reads it.\<close>

definition ReliableClient_new :: ReliableClient where
  "ReliableClient_new =
     \<lparr>cli_peerAddress = NoAddress, cli_peerPort = 0, cli_sequenceNumber = 0, cli_nextSequence = 0,
      cli_totalPacketsSent = 0, cli_retransmissions = 0, cli_totalBytesSent = 0,
      cli_timerEvent = None, cli_timeout = MilliSeconds 500, cli_maxPackets = 100,
      cli_interval = Seconds 1, cli_packetSize = 1024, cli_waitingForAck = False,
      cli_pendingAckSequence = 0\<rparr>"

text \<open>
  The two overloads of \<^verbatim>\<open>SetRemote\<close>. The first stores the address and, apart from
  it, the port; the second stores the address it is given.
\<close>

definition ReliableClient_SetRemote_port ::
  "Address \<Rightarrow> 16 word \<Rightarrow> ReliableClient \<Rightarrow> ReliableClient"
where
  "ReliableClient_SetRemote_port ip port c = c\<lparr>cli_peerAddress := ip, cli_peerPort := port\<rparr>"

definition ReliableClient_SetRemote :: "Address \<Rightarrow> ReliableClient \<Rightarrow> ReliableClient" where
  "ReliableClient_SetRemote addr c = c\<lparr>cli_peerAddress := addr\<rparr>"

text \<open>\<^verbatim>\<open>StartApplication\<close> schedules the first transmission 0.1 s later.\<close>

definition ReliableClient_StartApplication ::
  "ReliableClient \<Rightarrow> Simulator \<Rightarrow> ReliableClient \<times> Simulator"
where
  "ReliableClient_StartApplication c sim = (c, snd (Schedule (MilliSeconds 100) SendPacketCb sim))"

definition ReliableClient_StopApplication ::
  "ReliableClient \<Rightarrow> Simulator \<Rightarrow> ReliableClient \<times> Simulator"
where
  "ReliableClient_StopApplication c sim =
     (c, if IsPending (cli_timerEvent c) sim then Cancel (cli_timerEvent c) sim else sim)"

text \<open>
  \<^verbatim>\<open>ReliableClient::SendPacket\<close>. The argument \<open>sendTo\<close> is the socket: it gives
  the value that \<^verbatim>\<open>m_socket->SendTo\<close> returns for a packet (the number of bytes
  on success, -1 on failure). The source discards that value. The result is the client,
  the simulator and the packets handed to the socket, each with its destination.
\<close>

definition ReliableClient_SendPacket ::
  "(Packet \<Rightarrow> int) \<Rightarrow> ReliableClient \<Rightarrow> Simulator
     \<Rightarrow> ReliableClient \<times> Simulator \<times> (Packet \<times> Address) list"
where
  "ReliableClient_SendPacket sendTo c sim =
     (if cli_maxPackets c \<le> cli_nextSequence c then (c, sim, [])
      else
        (let header = ReliableHeader_new\<lparr>hdr_sequenceNumber := cli_nextSequence c,
                                          hdr_isAck := False\<rparr>;
             packet = AddHeader header (Create (cli_packetSize c));
             c1 = c\<lparr>cli_totalPacketsSent := cli_totalPacketsSent c + 1\<rparr>;
             c2 = c1\<lparr>cli_totalBytesSent := cli_totalBytesSent c1 + GetSize packet\<rparr>;
             c3 = c2\<lparr>cli_waitingForAck := True\<rparr>;
             c4 = c3\<lparr>cli_pendingAckSequence := cli_nextSequence c3\<rparr>;
             (ev, sim1) = Schedule (cli_timeout c4) (TimeoutHandlerCb (cli_nextSequence c4)) sim;
             c5 = c4\<lparr>cli_timerEvent := ev\<rparr>;
             c6 = c5\<lparr>cli_nextSequence := cli_nextSequence c5 + 1\<rparr>
         in (c6, sim1, [(packet, cli_peerAddress c)])))"

text \<open>One turn of the receive loop of \<^verbatim>\<open>ReliableClient::HandleRead\<close>. It hands
  nothing to the socket: the list of sent packets is always empty.\<close>

definition ReliableClient_HandleRead1 ::
  "ReliableClient \<Rightarrow> Simulator \<Rightarrow> Packet
     \<Rightarrow> error + (ReliableClient \<times> Simulator \<times> (Packet \<times> Address) list)"
where
  "ReliableClient_HandleRead1 c sim p =
     (case RemoveHeader p of
        Inl e \<Rightarrow> Inl e
      | Inr (header, packet) \<Rightarrow>
          (if hdr_isAck header then
             (let ackSeq = hdr_ackNumber header
              in if cli_waitingForAck c \<and> ackSeq = cli_pendingAckSequence c then
                   (let sim1 = (if IsPending (cli_timerEvent c) sim
                                then Cancel (cli_timerEvent c) sim else sim);
                        c1 = c\<lparr>cli_waitingForAck := False\<rparr>;
                        (ev, sim2) = Schedule (cli_interval c1) SendPacketCb sim1
                    in Inr (c1, sim2, []))
                 else Inr (c, sim, []))
           else Inr (c, sim, [])))"

fun ReliableClient_HandleRead ::
  "ReliableClient \<Rightarrow> Simulator \<Rightarrow> Packet list
     \<Rightarrow> error + (ReliableClient \<times> Simulator \<times> (Packet \<times> Address) list)"
where
  "ReliableClient_HandleRead c sim [] = Inr (c, sim, [])"
| "ReliableClient_HandleRead c sim (p # rest) =
     (case ReliableClient_HandleRead1 c sim p of
        Inl e \<Rightarrow> Inl e
      | Inr (c1, sim1, out1) \<Rightarrow>
          (case ReliableClient_HandleRead c1 sim1 rest of
             Inl e \<Rightarrow> Inl e
           | Inr (c2, sim2, out2) \<Rightarrow> Inr (c2, sim2, out1 @ out2)))"

definition ReliableClient_TimeoutHandler ::
  "(Packet \<Rightarrow> int) \<Rightarrow> u32 \<Rightarrow> ReliableClient \<Rightarrow> Simulator
     \<Rightarrow> ReliableClient \<times> Simulator \<times> (Packet \<times> Address) list"
where
  "ReliableClient_TimeoutHandler sendTo sq c sim =
     (if cli_waitingForAck c \<and> sq = cli_pendingAckSequence c then
        (let c1 = c\<lparr>cli_retransmissions := cli_retransmissions c + 1\<rparr>;
             header = ReliableHeader_new\<lparr>hdr_sequenceNumber := sq, hdr_isAck := False\<rparr>;
             packet = AddHeader header (Create (cli_packetSize c1));
             c2 = c1\<lparr>cli_totalPacketsSent := cli_totalPacketsSent c1 + 1\<rparr>;
             c3 = c2\<lparr>cli_totalBytesSent := cli_totalBytesSent c2 + GetSize packet\<rparr>;
             (ev, sim1) = Schedule (cli_timeout c3) (TimeoutHandlerCb sq) sim;
             c4 = c3\<lparr>cli_timerEvent := ev\<rparr>
         in (c4, sim1, [(packet, cli_peerAddress c)]))
      else (c, sim, []))"

section \<open>The stop-and-wait sender as a transition system\<close>

text \<open>
  The sender alone, driven by its environment. A step runs one callback of the sender: a
  pending \<^verbatim>\<open>SendPacket\<close> event, a pending \<^verbatim>\<open>TimeoutHandler\<close> event, or
  \<^verbatim>\<open>HandleRead\<close> on whatever packets the network delivers, at any later time.
  Any pending event may be the next to run and any packets may arrive, so every run of
  the simulator is a run of this system. A step is labelled with the callback and the
  packets handed to the socket. A step whose \<^verbatim>\<open>HandleRead\<close> overruns a packet
  has no successor state.
\<close>

datatype Label = FireSend | FireTimeout u32 | Receive "Packet list"

inductive client_step ::
  "ReliableClient \<times> Simulator \<Rightarrow> Label \<times> (Packet \<times> Address) list
     \<Rightarrow> ReliableClient \<times> Simulator \<Rightarrow> bool"
where
  step_send:
    "e \<in> set (sim_events sim) \<Longrightarrow> ev_cb e = SendPacketCb \<Longrightarrow>
     ReliableClient_SendPacket sendTo c (fire e sim) = (c', sim', out) \<Longrightarrow>
     client_step (c, sim) (FireSend, out) (c', sim')"
| step_timeout:
    "e \<in> set (sim_events sim) \<Longrightarrow> ev_cb e = TimeoutHandlerCb sq \<Longrightarrow>
     ReliableClient_TimeoutHandler sendTo sq c (fire e sim) = (c', sim', out) \<Longrightarrow>
     client_step (c, sim) (FireTimeout sq, out) (c', sim')"
| step_receive:
    "sim_now sim \<le> t \<Longrightarrow>
     ReliableClient_HandleRead c (sim\<lparr>sim_now := t\<rparr>) ps = Inr (c', sim', out) \<Longrightarrow>
     client_step (c, sim) (Receive ps, out) (c', sim')"

text \<open>The states the sender can be in: it is constructed, its attributes and its peer are
  set, and \<^verbatim>\<open>StartApplication\<close> runs on a simulator with no event of the sender.\<close>

inductive reachable_client :: "ReliableClient \<times> Simulator \<Rightarrow> bool" where
  reach_start:
    "reachable_client
       (ReliableClient_StartApplication
          (ReliableClient_new\<lparr>cli_peerAddress := peer, cli_peerPort := port, cli_timeout := tmo,
                              cli_maxPackets := m, cli_interval := itv, cli_packetSize := sz\<rparr>)
          \<lparr>sim_now = t0, sim_uid = u0, sim_events = []\<rparr>)"
| reach_step:
    "reachable_client s \<Longrightarrow> client_step s l s' \<Longrightarrow> reachable_client s'"

text \<open>
  A stretch of a run in which every step starts from a state that awaits an acknowledgment,
  with the packets handed to the socket along it. It begins after the send of a new
  sequence number and goes on at most up to and including the step that receives the
  matching acknowledgment.
\<close>

inductive waiting_run ::
  "ReliableClient \<times> Simulator \<Rightarrow> (Packet \<times> Address) list \<Rightarrow> ReliableClient \<times> Simulator \<Rightarrow> bool"
where
  wr_none: "waiting_run s [] s"
| wr_step:
    "cli_waitingForAck (fst s) \<Longrightarrow> client_step s (l, out) s' \<Longrightarrow> waiting_run s' outs s'' \<Longrightarrow>
     waiting_run s (out @ outs) s''"

text \<open>\<^verbatim>\<open>SendPacket\<close> called n times in a row.\<close>

fun ReliableClient_SendPacket_times ::
  "nat \<Rightarrow> (Packet \<Rightarrow> int) \<Rightarrow> ReliableClient \<Rightarrow> Simulator
     \<Rightarrow> ReliableClient \<times> Simulator \<times> (Packet \<times> Address) list"
where
  "ReliableClient_SendPacket_times 0 sendTo c sim = (c, sim, [])"
| "ReliableClient_SendPacket_times (Suc n) sendTo c sim =
     (let (c1, sim1, out1) = ReliableClient_SendPacket sendTo c sim;
          (c2, sim2, out2) = ReliableClient_SendPacket_times n sendTo c1 sim1
      in (c2, sim2, out1 @ out2))"

section \<open>Client, server and channel together\<close>

text \<open>
  The two nodes of \<^verbatim>\<open>main\<close>: the client at 10.1.1.1, where \<^verbatim>\<open>Bind()\<close> gives
  its socket the first free port, and the server at 10.1.1.2, whose socket is bound to
  port 9. An IPv4 address is the 32-bit number its four bytes make.
\<close>

definition clientIp :: u32 where
  "clientIp = 167837953"

definition serverIp :: u32 where
  "serverIp = 167837954"

definition clientAddress :: Address where
  "clientAddress = InetSocketAddress clientIp 49153"

definition serverAddress :: Address where
  "serverAddress = InetSocketAddress serverIp 9"

text \<open>
  \<^verbatim>\<open>SendTo\<close> of the UDP socket of ns-3. It sends to a socket address only: for any
  other \<^verbatim>\<open>Address\<close>, and for a packet larger than the greatest UDP datagram (65507
  bytes), it sends nothing and returns -1. Otherwise the packet goes out and the result
  is its size.
\<close>

definition UdpSocket_SendTo :: "Packet \<Rightarrow> Address \<Rightarrow> int \<times> (Packet \<times> Address) list" where
  "UdpSocket_SendTo p a =
     (case a of
        InetSocketAddress ip port \<Rightarrow>
          if 65507 < length p then (- 1, []) else (int (length p), [(p, a)])
      | _ \<Rightarrow> (- 1, []))"

text \<open>Of the packets an application hands to its socket, those that go out.\<close>

fun UdpSocket_sent :: "(Packet \<times> Address) list \<Rightarrow> (Packet \<times> Address) list" where
  "UdpSocket_sent [] = []"
| "UdpSocket_sent ((p, a) # rest) = snd (UdpSocket_SendTo p a) @ UdpSocket_sent rest"

text \<open>
  The channel decides, for the k-th packet offered to it, whether the packet is lost
  (\<open>None\<close>) or delivered after a latency. A delivery is an event of the simulator that
  runs the receiver's \<^verbatim>\<open>HandleRead\<close>. The system keeps a log of the client's
  packets that went out and of the packets delivered to the client.
\<close>

type_synonym Channel = "nat \<Rightarrow> Packet \<Rightarrow> Time option"

record System =
  sys_sim :: Simulator
  sys_client :: ReliableClient
  sys_server :: ReliableServer
  sys_carried :: nat
  sys_clientTx :: "Packet list"
  sys_clientRx :: "Packet list"

fun transmit ::
  "Channel \<Rightarrow> Address \<Rightarrow> (Packet \<times> Address) list \<Rightarrow> Simulator \<times> nat \<Rightarrow> Simulator \<times> nat"
where
  "transmit ch src [] (sim, k) = (sim, k)"
| "transmit ch src ((p, dst) # rest) (sim, k) =
     transmit ch src rest
       (case ch k p of
          None \<Rightarrow> (sim, k + 1)
        | Some d \<Rightarrow> (snd (Schedule d (Deliver dst src p) sim), k + 1))"

text \<open>A socket whose sends succeed returns the number of bytes.\<close>

definition socket_ok :: "Packet \<Rightarrow> int" where
  "socket_ok p = int (length p)"

text \<open>
  Running one event. What an application hands to its socket passes through
  \<^verbatim>\<open>SendTo\<close>, and only what goes out is offered to the channel.
\<close>

definition dispatch :: "Channel \<Rightarrow> Event \<Rightarrow> System \<Rightarrow> error + System" where
  "dispatch ch e s =
     (let sim0 = fire e (sys_sim s);
          sendTo = (\<lambda>p. fst (UdpSocket_SendTo p (cli_peerAddress (sys_client s))))
      in case ev_cb e of
           SendPacketCb \<Rightarrow>
             (let (c, sim1, out) = ReliableClient_SendPacket sendTo (sys_client s) sim0;
                  sent = UdpSocket_sent out;
                  (sim2, k) = transmit ch clientAddress sent (sim1, sys_carried s)
              in Inr (s\<lparr>sys_sim := sim2, sys_client := c, sys_carried := k,
                        sys_clientTx := sys_clientTx s @ map fst sent\<rparr>))
         | TimeoutHandlerCb sq \<Rightarrow>
             (let (c, sim1, out) = ReliableClient_TimeoutHandler sendTo sq (sys_client s) sim0;
                  sent = UdpSocket_sent out;
                  (sim2, k) = transmit ch clientAddress sent (sim1, sys_carried s)
              in Inr (s\<lparr>sys_sim := sim2, sys_client := c, sys_carried := k,
                        sys_clientTx := sys_clientTx s @ map fst sent\<rparr>))
         | Deliver dst src p \<Rightarrow>
             (if dst = serverAddress then
                (case ReliableServer_HandleRead (sys_server s) [(p, src)] of
                   Inl err \<Rightarrow> Inl err
                 | Inr (srv, out) \<Rightarrow>
                     (let (sim2, k) = transmit ch serverAddress (UdpSocket_sent out)
                                        (sim0, sys_carried s)
                      in Inr (s\<lparr>sys_sim := sim2, sys_server := srv, sys_carried := k\<rparr>)))
              else if dst = clientAddress then
                (case ReliableClient_HandleRead (sys_client s) sim0 [p] of
                   Inl err \<Rightarrow> Inl err
                 | Inr (c, sim1, out) \<Rightarrow>
                     (let (sim2, k) = transmit ch clientAddress (UdpSocket_sent out)
                                        (sim1, sys_carried s)
                      in Inr (s\<lparr>sys_sim := sim2, sys_client := c, sys_carried := k,
                                sys_clientRx := sys_clientRx s @ [p]\<rparr>)))
              else Inr (s\<lparr>sys_sim := sim0\<rparr>)))"

text \<open>
  \<^verbatim>\<open>Simulator::Run\<close> with \<^verbatim>\<open>Simulator::Stop\<close> at \<open>stop\<close>: events run in
  order until the queue is empty or the next event is due at the stop time or later.
  \<open>None\<close> says that the fuel ran out before that; \<open>Some (Inl e)\<close> that a callback
  overran a packet.
\<close>

fun run :: "nat \<Rightarrow> Channel \<Rightarrow> Time \<Rightarrow> System \<Rightarrow> (error + System) option" where
  "run 0 ch stop s =
     (case next_event (sim_events (sys_sim s)) of
        None \<Rightarrow> Some (Inr s)
      | Some e \<Rightarrow> if stop \<le> ev_ts e then Some (Inr s) else None)"
| "run (Suc n) ch stop s =
     (case next_event (sim_events (sys_sim s)) of
        None \<Rightarrow> Some (Inr s)
      | Some e \<Rightarrow>
          if stop \<le> ev_ts e then Some (Inr s)
          else (case dispatch ch e s of
                  Inl err \<Rightarrow> Some (Inl err)
                | Inr s' \<Rightarrow> run n ch stop s'))"

text \<open>
  The set-up of \<^verbatim>\<open>main\<close>: the client is constructed, \<open>setRemote\<close> is the call of
  \<^verbatim>\<open>SetRemote\<close> made on it, its four attributes are set, it starts at 2 s, and the
  server is freshly constructed.
\<close>

definition scenario ::
  "(ReliableClient \<Rightarrow> ReliableClient) \<Rightarrow> u32 \<Rightarrow> u32 \<Rightarrow> Time \<Rightarrow> Time \<Rightarrow> System"
where
  "scenario setRemote maxPackets packetSize interval timeout =
     (let c0 = (setRemote ReliableClient_new)\<lparr>cli_maxPackets := maxPackets,
                  cli_packetSize := packetSize, cli_interval := interval, cli_timeout := timeout\<rparr>;
          (c, sim) = ReliableClient_StartApplication c0
                       \<lparr>sim_now = Seconds 2, sim_uid = 0, sim_events = []\<rparr>
      in \<lparr>sys_sim = sim, sys_client = c, sys_server = ReliableServer_new, sys_carried = 0,
          sys_clientTx = [], sys_clientRx = []\<rparr>)"

text \<open>The call that \<^verbatim>\<open>main\<close> makes:
  \<^verbatim>\<open>clientApp->SetRemote(interfaces.GetAddress(1), 9)\<close>, with the server's bare IPv4
  address.\<close>

definition main_SetRemote :: "ReliableClient \<Rightarrow> ReliableClient" where
  "main_SetRemote = ReliableClient_SetRemote_port (Ipv4Address serverIp) 9"

text \<open>An error-free channel: every packet arrives, the k-th one, \<open>p\<close>, after the latency
  \<open>lat k p\<close>.\<close>

definition error_free :: "(nat \<Rightarrow> Packet \<Rightarrow> Time) \<Rightarrow> Channel" where
  "error_free lat k p = Some (lat k p)"

text \<open>
  The latency of the idle point-to-point link of \<^verbatim>\<open>main\<close>, 5 Mbps with a delay of
  2 ms: a packet goes out with 30 more bytes (the UDP, IPv4 and PPP headers) at 1600 ns
  per byte, and arrives 2 ms after its last bit has left.
\<close>

definition p2p_link :: "nat \<Rightarrow> Packet \<Rightarrow> Time" where
  "p2p_link k p = (int (length p) + 30) * 1600 + MilliSeconds 2"

section \<open>EnhancedUdpClient: the rate-controlled sender\<close>

text \<open>
  The global statistics of the program. \<^verbatim>\<open>totalDelay\<close>, a \<^verbatim>\<open>double\<close> that only
  the receiver writes, is left out.
\<close>

record Stats =
  totalReceivedPackets :: u32
  totalLostPackets :: u32
  totalBytesReceived :: u32

record CustomHeader =
  ch_sequenceNumber :: u32
  ch_payloadSize :: u32

text \<open>
  The send interval is a \<^verbatim>\<open>Time\<close> that the source computes in \<^verbatim>\<open>double\<close>. It
  is kept as the expression that produced it: \<^verbatim>\<open>Seconds(0.05)\<close>, the value the
  constructor and \<^verbatim>\<open>main\<close> set, or
  \<^verbatim>\<open>Seconds(std::max(1.0 / m_cwnd, 0.001))\<close> for the window at the time of an
  adjustment. \<open>euc_sendEvent\<close> says whether the event held in \<^verbatim>\<open>m_sendEvent\<close> is
  pending.
\<close>

datatype SendInterval = InitialInterval | WindowInterval u32

record EnhancedUdpClient =
  euc_packetSize :: u32
  euc_maxPackets :: u32
  euc_packetsSent :: u32
  euc_interval :: SendInterval
  euc_cwnd :: u32
  euc_ssthresh :: u32
  euc_congestionAvoidance :: bool
  euc_sequenceNumber :: u32
  euc_sendEvent :: bool

definition EnhancedUdpClient_new :: EnhancedUdpClient where
  "EnhancedUdpClient_new =
     \<lparr>euc_packetSize = 1024, euc_maxPackets = 100, euc_packetsSent = 0,
      euc_interval = InitialInterval, euc_cwnd = 4, euc_ssthresh = 32,
      euc_congestionAvoidance = False, euc_sequenceNumber = 0, euc_sendEvent = False\<rparr>"

definition ScheduleTransmit :: "EnhancedUdpClient \<Rightarrow> EnhancedUdpClient" where
  "ScheduleTransmit c = c\<lparr>euc_sendEvent := True\<rparr>"

definition EnhancedUdpClient_StartApplication :: "EnhancedUdpClient \<Rightarrow> EnhancedUdpClient" where
  "EnhancedUdpClient_StartApplication c = ScheduleTransmit c"

definition CongestionControl :: "EnhancedUdpClient \<times> Stats \<Rightarrow> EnhancedUdpClient \<times> Stats" where
  "CongestionControl cs =
     (let c = fst cs; st = snd cs;
          c1 = (if \<not> euc_congestionAvoidance c then
                  (let g = c\<lparr>euc_cwnd := min (euc_cwnd c + 2) (euc_ssthresh c)\<rparr>
                   in if euc_ssthresh g \<le> euc_cwnd g then g\<lparr>euc_congestionAvoidance := True\<rparr>
                      else g)
                else c\<lparr>euc_cwnd := euc_cwnd c + 1\<rparr>);
          (c2, st2) =
            (if euc_packetsSent c1 mod 40 = 0 \<and> 0 < euc_packetsSent c1 then
               (let l1 = c1\<lparr>euc_ssthresh := max (euc_cwnd c1 div 2) 4\<rparr>;
                    l2 = l1\<lparr>euc_cwnd := 4\<rparr>;
                    l3 = l2\<lparr>euc_congestionAvoidance := False\<rparr>
                in (l3, st\<lparr>totalLostPackets := totalLostPackets st + 2\<rparr>))
             else (c1, st))
      in (c2\<lparr>euc_interval := WindowInterval (euc_cwnd c2)\<rparr>, st2))"

text \<open>
  \<^verbatim>\<open>EnhancedUdpClient::SendPacket\<close>. The argument \<open>send\<close> is the socket: the value
  \<^verbatim>\<open>m_socket->Send\<close> returns for the packet with the given header. The result is
  the client, the statistics and the headers of the packets handed to the socket.
\<close>

definition EnhancedUdpClient_SendPacket ::
  "(CustomHeader \<Rightarrow> int) \<Rightarrow> EnhancedUdpClient \<times> Stats
     \<Rightarrow> EnhancedUdpClient \<times> Stats \<times> CustomHeader list"
where
  "EnhancedUdpClient_SendPacket send cs =
     (let c = fst cs; st = snd cs
      in if euc_maxPackets c \<le> euc_packetsSent c then (c, st, [])
         else
           (let header = \<lparr>ch_sequenceNumber = euc_sequenceNumber c,
                          ch_payloadSize = euc_packetSize c\<rparr>;
                c1 = c\<lparr>euc_sequenceNumber := euc_sequenceNumber c + 1\<rparr>;
                actualBytes = send header
            in if 0 < actualBytes then
                 (let c2 = c1\<lparr>euc_packetsSent := euc_packetsSent c1 + 1\<rparr>;
                      (c3, st3) = (if euc_packetsSent c2 mod 15 = 0
                                   then CongestionControl (c2, st) else (c2, st));
                      c4 = (if euc_packetsSent c3 < euc_maxPackets c3
                            then ScheduleTransmit c3 else c3)
                  in (c4, st3, [header]))
               else (c1, st\<lparr>totalLostPackets := totalLostPackets st + 1\<rparr>, [header])))"

text \<open>
  The simulator running the sender's events, at most n of them: the pending send event
  expires and \<^verbatim>\<open>SendPacket\<close> runs. With no event pending nothing runs any more.
\<close>

fun EnhancedUdpClient_run ::
  "nat \<Rightarrow> (CustomHeader \<Rightarrow> int) \<Rightarrow> EnhancedUdpClient \<times> Stats
     \<Rightarrow> EnhancedUdpClient \<times> Stats \<times> CustomHeader list"
where
  "EnhancedUdpClient_run 0 send cs = (fst cs, snd cs, [])"
| "EnhancedUdpClient_run (Suc n) send cs =
     (if euc_sendEvent (fst cs) then
        (let (c1, st1, out1) =
               EnhancedUdpClient_SendPacket send ((fst cs)\<lparr>euc_sendEvent := False\<rparr>, snd cs);
             (c2, st2, out2) = EnhancedUdpClient_run n send (c1, st1)
         in (c2, st2, out1 @ out2))
      else (fst cs, snd cs, []))"

definition Stats_reset :: Stats where
  "Stats_reset = \<lparr>totalReceivedPackets = 0, totalLostPackets = 0, totalBytesReceived = 0\<rparr>"

section \<open>EnhancedUdpServer: the receiver of the rate-controlled sender\<close>

text \<open>
  \<^verbatim>\<open>CustomHeader::GetSize\<close> is
  \<^verbatim>\<open>sizeof(uint32_t) + sizeof(double) + sizeof(uint32_t)\<close>. One turn of the
  receive loop of \<^verbatim>\<open>EnhancedUdpServer::HandleRead\<close> looks at the packet's size
  before it copies the header out. The header's fields go to the log line and to
  \<^verbatim>\<open>totalDelay\<close> only, which are left out; what remains is the two counters and
  which of the two log lines was written.
\<close>

definition CustomHeader_GetSize :: u32 where
  "CustomHeader_GetSize = 4 + 8 + 4"

datatype LogLine = PacketReceived | PacketTooSmall

definition EnhancedUdpServer_HandleRead1 :: "Stats \<Rightarrow> Packet \<Rightarrow> Stats \<times> LogLine" where
  "EnhancedUdpServer_HandleRead1 st p =
     (let packetSize = GetSize p
      in if CustomHeader_GetSize \<le> packetSize then
           (st\<lparr>totalReceivedPackets := totalReceivedPackets st + 1,
               totalBytesReceived := totalBytesReceived st + packetSize\<rparr>,
            PacketReceived)
         else (st, PacketTooSmall))"

section \<open>Auxiliary notions for the sender's invariant\<close>

text \<open>The pending \<^verbatim>\<open>SendPacket\<close> events of the queue.\<close>

definition send_events :: "Simulator \<Rightarrow> Event list" where
  "send_events sim = filter (\<lambda>e. ev_cb e = SendPacketCb) (sim_events sim)"

text \<open>While an acknowledgment is awaited no \<^verbatim>\<open>SendPacket\<close> event is pending, and
  the awaited sequence number is the last one issued; otherwise at most one is pending.\<close>

definition one_send_at_a_time :: "ReliableClient \<times> Simulator \<Rightarrow> bool" where
  "one_send_at_a_time s =
     (length (send_events (snd s)) \<le> (if cli_waitingForAck (fst s) then 0 else 1)
      \<and> (cli_waitingForAck (fst s) \<longrightarrow> cli_nextSequence (fst s) = cli_pendingAckSequence (fst s) + 1))"

text \<open>The packets the two applications build: the sender's data segment with sequence
  number \<open>sq\<close> and a zero payload of \<open>sz\<close> bytes, and the receiver's acknowledgment.\<close>

definition data_segment :: "u32 \<Rightarrow> u32 \<Rightarrow> Packet" where
  "data_segment sq sz = AddHeader (ReliableHeader_new\<lparr>hdr_sequenceNumber := sq, hdr_isAck := False\<rparr>) (Create sz)"

definition ack_segment :: "u32 \<Rightarrow> Packet" where
  "ack_segment sq = AddHeader (ReliableHeader_new\<lparr>hdr_isAck := True, hdr_ackNumber := sq\<rparr>) (Create 0)"

text \<open>A packet that decodes to an acknowledgment of \<open>sq\<close>.\<close>

definition acknowledges :: "u32 \<Rightarrow> Packet \<Rightarrow> bool" where
  "acknowledges sq p =
     (case RemoveHeader p of
        Inl e \<Rightarrow> False
      | Inr (h, payload) \<Rightarrow> hdr_isAck h \<and> hdr_ackNumber h = sq)"

text \<open>
  A short concrete run of the sender, with the server's socket address as its remote and
  \<^verbatim>\<open>MaxPackets = 2\<close>: it starts at 2 s,
  sends sequence number 0 at 2.1 s, times out and retransmits at 2.6 s, and receives the
  acknowledgment of 0 at 2.608 s.
\<close>

definition start_state :: "ReliableClient \<times> Simulator" where
  "start_state =
     ReliableClient_StartApplication
       ((ReliableClient_SetRemote serverAddress ReliableClient_new)
          \<lparr>cli_timeout := MilliSeconds 500, cli_maxPackets := 2, cli_interval := Seconds 1,
           cli_packetSize := 1024\<rparr>)
       \<lparr>sim_now = Seconds 2, sim_uid = 0, sim_events = []\<rparr>"

definition after_send :: "ReliableClient \<times> Simulator \<Rightarrow> Event \<Rightarrow> ReliableClient \<times> Simulator" where
  "after_send s e =
     (let r = ReliableClient_SendPacket socket_ok (fst s) (fire e (snd s)) in (fst r, fst (snd r)))"

definition after_timeout :: "ReliableClient \<times> Simulator \<Rightarrow> Event \<Rightarrow> u32 \<Rightarrow> ReliableClient \<times> Simulator" where
  "after_timeout s e sq =
     (let r = ReliableClient_TimeoutHandler socket_ok sq (fst s) (fire e (snd s))
      in (fst r, fst (snd r)))"

definition after_receive :: "ReliableClient \<times> Simulator \<Rightarrow> Time \<Rightarrow> Packet list \<Rightarrow> ReliableClient \<times> Simulator" where
  "after_receive s t ps =
     (case ReliableClient_HandleRead (fst s) ((snd s)\<lparr>sim_now := t\<rparr>) ps of
        Inl e \<Rightarrow> s
      | Inr r \<Rightarrow> (fst r, fst (snd r)))"

definition sent_first :: "ReliableClient \<times> Simulator" where
  "sent_first = after_send start_state \<lparr>ev_ts = 2100000000, ev_uid = 0, ev_cb = SendPacketCb\<rparr>"

definition sent_again :: "ReliableClient \<times> Simulator" where
  "sent_again = after_timeout sent_first \<lparr>ev_ts = 2600000000, ev_uid = 1, ev_cb = TimeoutHandlerCb 0\<rparr> 0"

definition acked_first :: "ReliableClient \<times> Simulator" where
  "acked_first = after_receive sent_again 2608000000 [ack_segment 0]"

text \<open>The run goes on: sequence number 1 is sent at 3.608 s and acknowledged at 3.616 s,
  which schedules the \<^verbatim>\<open>SendPacket\<close> that finds nothing left to send.\<close>

definition sent_second :: "ReliableClient \<times> Simulator" where
  "sent_second = after_send acked_first \<lparr>ev_ts = 3608000000, ev_uid = 3, ev_cb = SendPacketCb\<rparr>"

definition acked_second :: "ReliableClient \<times> Simulator" where
  "acked_second = after_receive sent_second 3616000000 [ack_segment 1]"

section \<open>The codec\<close>

lemma ReadNtohU32_WriteHtonU32:
  "ReadNtohU32 (WriteHtonU32 d [] @ rest) = Inr (d, rest)"
proof -
  have join: "push_bit 8 (push_bit 8 (push_bit 8 (ucast (ucast (drop_bit 24 d) :: u8))
                OR ucast (ucast (drop_bit 16 d) :: u8))
                OR ucast (ucast (drop_bit 8 d) :: u8))
                OR ucast (ucast d :: u8) = d"
  proof (rule bit_word_eqI)
    fix n
    assume "n < LENGTH(32)"
    then show "bit (push_bit 8 (push_bit 8 (push_bit 8 (ucast (ucast (drop_bit 24 d) :: u8))
                OR ucast (ucast (drop_bit 16 d) :: u8))
                OR ucast (ucast (drop_bit 8 d) :: u8))
                OR (ucast (ucast d :: u8) :: u32)) n = bit d n"
      apply (cases "n < 8"; cases "n < 16"; cases "n < 24")
             apply (simp_all add: bit_simps not_less)
        apply (linarith | auto)+
      done
  qed
  show ?thesis
    by (simp only: WriteHtonU32_def append_Nil append_Cons ReadNtohU32.simps join)
qed

lemma Deserialize_Serialize:
  "Deserialize (Serialize h @ rest) = Inr (h, GetSerializedSize)"
proof -
  have split: "Serialize h @ rest =
      WriteHtonU32 (hdr_sequenceNumber h) [] @
        (WriteHtonU32 (hdr_ackNumber h) [] @ ((if hdr_isAck h then 1 else 0) # rest))"
    by (simp add: Serialize_def WriteU8_def WriteHtonU32_def)
  show ?thesis
    unfolding Deserialize_def split
    by (simp add: ReadNtohU32_WriteHtonU32)
qed

lemma length_Serialize: "length (Serialize h) = 9"
  by (simp add: Serialize_def WriteU8_def WriteHtonU32_def)

lemma RemoveHeader_AddHeader: "RemoveHeader (AddHeader h p) = Inr (h, p)"
  by (simp add: RemoveHeader_def AddHeader_def Deserialize_Serialize GetSerializedSize_def
      length_Serialize)

text \<open>
  C3. Codec round trip: decoding the bytes produced by encoding a segment gives the segment
  back. A segment is a header and a payload; a Data segment carries any sequence number
  and any payload, an Ack segment any acknowledgment number and the empty payload. The
  equation holds for every header and every payload, so for both kinds.
\<close>

theorem codec_round_trip:
  "RemoveHeader (AddHeader h payload) = Inr (h, payload)
   \<and> RemoveHeader (AddHeader (ReliableHeader_new\<lparr>hdr_sequenceNumber := sq, hdr_isAck := False\<rparr>) payload)
       = Inr (\<lparr>hdr_sequenceNumber = sq, hdr_ackNumber = 0, hdr_isAck = False\<rparr>, payload)
   \<and> RemoveHeader (AddHeader (ReliableHeader_new\<lparr>hdr_isAck := True, hdr_ackNumber := ak\<rparr>) (Create 0))
       = Inr (\<lparr>hdr_sequenceNumber = 0, hdr_ackNumber = ak, hdr_isAck = True\<rparr>, [])"
  by (simp add: RemoveHeader_AddHeader ReliableHeader_new_def Create_def)

section \<open>The stop-and-wait sender: one segment in flight\<close>

lemma send_events_Schedule:
  "send_events (snd (Schedule d cb sim)) =
     send_events sim @ (if cb = SendPacketCb then [\<lparr>ev_ts = sim_now sim + d, ev_uid = sim_uid sim, ev_cb = cb\<rparr>] else [])"
  by (simp add: send_events_def Schedule_def)

lemma send_events_Cancel: "length (send_events (Cancel ev sim)) \<le> length (send_events sim)"
proof -
  have "send_events (Cancel ev sim) = filter (\<lambda>e. Some (ev_uid e) \<noteq> ev) (send_events sim)"
    by (simp add: send_events_def Cancel_def conj_commute)
  then show ?thesis by simp
qed

lemma send_events_now [simp]: "send_events (sim\<lparr>sim_now := t\<rparr>) = send_events sim"
  by (simp add: send_events_def)

lemma send_events_fire: "length (send_events (fire e sim)) \<le> length (send_events sim)"
  by (simp add: send_events_def fire_def filter_remove1 length_remove1)

lemma send_events_fire_send:
  assumes "e \<in> set (sim_events sim)" and "ev_cb e = SendPacketCb"
  shows "length (send_events sim) = Suc (length (send_events (fire e sim)))"
proof -
  have "e \<in> set (send_events sim)"
    using assms by (simp add: send_events_def)
  moreover from this have "0 < length (send_events sim)"
    by (cases "send_events sim") auto
  ultimately show ?thesis
    by (simp add: send_events_def fire_def filter_remove1 length_remove1)
qed

lemma inv_SendPacket:
  assumes inv: "one_send_at_a_time (c, sim)"
    and e: "e \<in> set (sim_events sim)" "ev_cb e = SendPacketCb"
    and run: "ReliableClient_SendPacket sendTo c (fire e sim) = (c', sim', out)"
  shows "one_send_at_a_time (c', sim')"
proof -
  from send_events_fire_send [OF e] inv
  have none: "length (send_events (fire e sim)) = 0" and idle: "\<not> cli_waitingForAck c"
    by (auto simp: one_send_at_a_time_def split: if_splits)
  show ?thesis
  proof (cases "cli_maxPackets c \<le> cli_nextSequence c")
    case True
    with run have "c' = c" "sim' = fire e sim"
      by (simp_all add: ReliableClient_SendPacket_def)
    with none idle show ?thesis
      by (simp add: one_send_at_a_time_def)
  next
    case False
    with run have w: "cli_waitingForAck c'"
      and n: "cli_nextSequence c' = cli_pendingAckSequence c' + 1"
      and s: "sim' = snd (Schedule (cli_timeout c) (TimeoutHandlerCb (cli_nextSequence c)) (fire e sim))"
      by (auto simp: ReliableClient_SendPacket_def Let_def split: prod.splits)
    from s none have "length (send_events sim') = 0"
      by (simp add: send_events_Schedule)
    with w n show ?thesis
      by (simp add: one_send_at_a_time_def)
  qed
qed

lemma inv_TimeoutHandler:
  assumes inv: "one_send_at_a_time (c, sim)"
    and run: "ReliableClient_TimeoutHandler sendTo sq c (fire e sim) = (c', sim', out)"
  shows "one_send_at_a_time (c', sim')"
proof (cases "cli_waitingForAck c \<and> sq = cli_pendingAckSequence c")
  case True
  with run have w: "cli_waitingForAck c' = cli_waitingForAck c"
    and n: "cli_nextSequence c' = cli_nextSequence c" "cli_pendingAckSequence c' = cli_pendingAckSequence c"
    and s: "sim' = snd (Schedule (cli_timeout c) (TimeoutHandlerCb sq) (fire e sim))"
    by (auto simp: ReliableClient_TimeoutHandler_def Let_def split: prod.splits)
  from s have "length (send_events sim') = length (send_events (fire e sim))"
    by (simp add: send_events_Schedule)
  with send_events_fire [of e sim] inv w n show ?thesis
    by (auto simp: one_send_at_a_time_def split: if_splits)
next
  case False
  with run have "c' = c" "sim' = fire e sim"
    by (auto simp: ReliableClient_TimeoutHandler_def)
  with send_events_fire [of e sim] inv show ?thesis
    by (auto simp: one_send_at_a_time_def split: if_splits)
qed

lemma inv_HandleRead1:
  assumes inv: "one_send_at_a_time (c, sim)"
    and run: "ReliableClient_HandleRead1 c sim p = Inr (c', sim', out)"
  shows "one_send_at_a_time (c', sim')"
proof -
  from run obtain h payload where h: "RemoveHeader p = Inr (h, payload)"
    by (auto simp: ReliableClient_HandleRead1_def split: sum.splits)
  show ?thesis
  proof (cases "hdr_isAck h \<and> cli_waitingForAck c \<and> hdr_ackNumber h = cli_pendingAckSequence c")
    case True
    define sim1 where "sim1 = (if IsPending (cli_timerEvent c) sim then Cancel (cli_timerEvent c) sim else sim)"
    from True run h have w: "\<not> cli_waitingForAck c'"
      and s: "sim' = snd (Schedule (cli_interval c) SendPacketCb sim1)"
      by (auto simp: ReliableClient_HandleRead1_def Let_def sim1_def split: prod.splits)
    from True inv have "length (send_events sim) = 0"
      by (simp add: one_send_at_a_time_def)
    with send_events_Cancel [of "cli_timerEvent c" sim] have "length (send_events sim1) = 0"
      by (simp add: sim1_def)
    with s have "length (send_events sim') = 1"
      by (simp add: send_events_Schedule)
    with w show ?thesis
      by (simp add: one_send_at_a_time_def)
  next
    case False
    with run h have "c' = c" "sim' = sim"
      by (auto simp: ReliableClient_HandleRead1_def split: if_splits)
    with inv show ?thesis by simp
  qed
qed

lemma inv_HandleRead:
  "one_send_at_a_time (c, sim) \<Longrightarrow> ReliableClient_HandleRead c sim ps = Inr (c', sim', out) \<Longrightarrow>
   one_send_at_a_time (c', sim')"
proof (induction ps arbitrary: c sim out)
  case Nil
  then show ?case by simp
next
  case (Cons p ps)
  from Cons.prems(2) obtain c1 sim1 out1 out2
    where a: "ReliableClient_HandleRead1 c sim p = Inr (c1, sim1, out1)"
      and b: "ReliableClient_HandleRead c1 sim1 ps = Inr (c', sim', out2)"
    by (auto split: sum.splits)
  from inv_HandleRead1 [OF Cons.prems(1) a] have "one_send_at_a_time (c1, sim1)" .
  from Cons.IH [OF this b] show ?case .
qed

lemma inv_now: "one_send_at_a_time (c, sim\<lparr>sim_now := t\<rparr>) = one_send_at_a_time (c, sim)"
  by (simp add: one_send_at_a_time_def)

lemma inv_step:
  assumes "client_step s lo s'" and "one_send_at_a_time s"
  shows "one_send_at_a_time s'"
  using assms
proof (induction rule: client_step.induct)
  case (step_send e sim sendTo c c' sim' out)
  then show ?case by (blast intro: inv_SendPacket)
next
  case (step_timeout e sim sq sendTo c c' sim' out)
  then show ?case by (blast intro: inv_TimeoutHandler)
next
  case (step_receive sim t c ps c' sim' out)
  then show ?case using inv_HandleRead [of c "sim\<lparr>sim_now := t\<rparr>" ps c' sim' out]
    by (simp add: inv_now)
qed

lemma reachable_inv: "reachable_client s \<Longrightarrow> one_send_at_a_time s"
proof (induction rule: reachable_client.induct)
  case (reach_start peer port tmo m itv sz t0 u0)
  have "send_events \<lparr>sim_now = t0, sim_uid = u0, sim_events = []\<rparr> = []"
    by (simp add: send_events_def)
  then show ?case
    by (simp add: one_send_at_a_time_def ReliableClient_StartApplication_def ReliableClient_new_def
        send_events_Schedule)
next
  case (reach_step s l s')
  then show ?case by (blast intro: inv_step)
qed

lemma HandleRead1_effect:
  assumes "ReliableClient_HandleRead1 c sim p = Inr (c', sim', out)"
  shows "out = [] \<and> cli_nextSequence c' = cli_nextSequence c
       \<and> cli_pendingAckSequence c' = cli_pendingAckSequence c
       \<and> cli_packetSize c' = cli_packetSize c \<and> cli_peerAddress c' = cli_peerAddress c
       \<and> (cli_waitingForAck c' \<longrightarrow> cli_waitingForAck c)
       \<and> (cli_waitingForAck c \<longrightarrow> cli_waitingForAck c' \<or> acknowledges (cli_pendingAckSequence c) p)"
  using assms
  by (auto simp: ReliableClient_HandleRead1_def acknowledges_def Let_def
      split: sum.splits prod.splits if_splits)

lemma HandleRead_effect:
  "ReliableClient_HandleRead c sim ps = Inr (c', sim', out) \<Longrightarrow>
   out = [] \<and> cli_nextSequence c' = cli_nextSequence c
       \<and> cli_pendingAckSequence c' = cli_pendingAckSequence c
       \<and> cli_packetSize c' = cli_packetSize c \<and> cli_peerAddress c' = cli_peerAddress c
       \<and> (cli_waitingForAck c' \<longrightarrow> cli_waitingForAck c)
       \<and> (cli_waitingForAck c \<longrightarrow>
            cli_waitingForAck c' \<or> (\<exists>p \<in> set ps. acknowledges (cli_pendingAckSequence c) p))"
proof (induction ps arbitrary: c sim out)
  case Nil
  then show ?case by simp
next
  case (Cons p ps)
  from Cons.prems obtain c1 sim1 out1 out2
    where a: "ReliableClient_HandleRead1 c sim p = Inr (c1, sim1, out1)"
      and b: "ReliableClient_HandleRead c1 sim1 ps = Inr (c', sim', out2)"
      and o: "out = out1 @ out2"
    by (auto split: sum.splits)
  from HandleRead1_effect [OF a] Cons.IH [OF b] o show ?case
    by auto
qed

lemma TimeoutHandler_effect:
  assumes "ReliableClient_TimeoutHandler sendTo sq c sim = (c', sim', out)"
  shows "set out \<subseteq> {(data_segment sq (cli_packetSize c), cli_peerAddress c)}
       \<and> (out \<noteq> [] \<longrightarrow> sq = cli_pendingAckSequence c)
       \<and> cli_nextSequence c' = cli_nextSequence c
       \<and> cli_pendingAckSequence c' = cli_pendingAckSequence c
       \<and> cli_packetSize c' = cli_packetSize c \<and> cli_peerAddress c' = cli_peerAddress c
       \<and> cli_waitingForAck c' = cli_waitingForAck c"
  using assms
  by (auto simp: ReliableClient_TimeoutHandler_def data_segment_def Let_def
      split: prod.splits if_splits)

lemma step_sendI:
  "e \<in> set (sim_events (snd s)) \<Longrightarrow> ev_cb e = SendPacketCb \<Longrightarrow>
   client_step s (FireSend, snd (snd (ReliableClient_SendPacket socket_ok (fst s) (fire e (snd s)))))
     (after_send s e)"
  using step_send [of e "snd s" socket_ok "fst s"]
  by (cases s, cases "ReliableClient_SendPacket socket_ok (fst s) (fire e (snd s))")
     (simp add: after_send_def)

lemma step_timeoutI:
  "e \<in> set (sim_events (snd s)) \<Longrightarrow> ev_cb e = TimeoutHandlerCb sq \<Longrightarrow>
   client_step s
     (FireTimeout sq, snd (snd (ReliableClient_TimeoutHandler socket_ok sq (fst s) (fire e (snd s)))))
     (after_timeout s e sq)"
  using step_timeout [of e "snd s" sq socket_ok "fst s"]
  by (cases s, cases "ReliableClient_TimeoutHandler socket_ok sq (fst s) (fire e (snd s))")
     (simp add: after_timeout_def)

lemma step_receiveI:
  "sim_now (snd s) \<le> t \<Longrightarrow>
   ReliableClient_HandleRead (fst s) ((snd s)\<lparr>sim_now := t\<rparr>) ps = Inr r \<Longrightarrow>
   client_step s (Receive ps, snd (snd r)) (after_receive s t ps)"
  using step_receive [of "snd s" t "fst s" ps "fst r" "fst (snd r)" "snd (snd r)"]
  by (cases s) (simp add: after_receive_def)

lemma start_state_reachable: "reachable_client start_state"
proof -
  have eq: "start_state =
      ReliableClient_StartApplication
        (ReliableClient_new\<lparr>cli_peerAddress := serverAddress, cli_peerPort := 0,
           cli_timeout := MilliSeconds 500, cli_maxPackets := 2, cli_interval := Seconds 1,
           cli_packetSize := 1024\<rparr>)
        \<lparr>sim_now = Seconds 2, sim_uid = 0, sim_events = []\<rparr>"
    by (simp add: start_state_def ReliableClient_SetRemote_def ReliableClient_new_def)
  show ?thesis
    unfolding eq by (rule reach_start)
qed

text \<open>
  One step from a reachable state that awaits an acknowledgment: the awaited sequence
  number is the last one issued; the step is not a \<^verbatim>\<open>SendPacket\<close>; it hands to
  the socket nothing but the awaited segment again, issues no new sequence number, and the
  sender goes on waiting for the same number unless the step received a packet that
  acknowledges it.
\<close>

lemma waiting_step:
  assumes reach: "reachable_client (c, sim)"
    and waiting: "cli_waitingForAck c"
    and step: "client_step (c, sim) (l, out) (c', sim')"
  shows "cli_nextSequence c = cli_pendingAckSequence c + 1
       \<and> l \<noteq> FireSend
       \<and> set out \<subseteq> {(data_segment (cli_pendingAckSequence c) (cli_packetSize c), cli_peerAddress c)}
       \<and> cli_nextSequence c' = cli_nextSequence c
       \<and> cli_pendingAckSequence c' = cli_pendingAckSequence c
       \<and> cli_packetSize c' = cli_packetSize c \<and> cli_peerAddress c' = cli_peerAddress c
       \<and> (cli_waitingForAck c'
            \<or> (\<exists>ps. l = Receive ps \<and> (\<exists>p \<in> set ps. acknowledges (cli_pendingAckSequence c) p)))"
proof -
  from reachable_inv [OF reach] waiting
  have quiet: "send_events sim = []"
    and latest: "cli_nextSequence c = cli_pendingAckSequence c + 1"
    by (simp_all add: one_send_at_a_time_def)
  from step show ?thesis
  proof (cases rule: client_step.cases)
    case (step_send e sendTo)
    then have "e \<in> set (send_events sim)"
      by (simp add: send_events_def)
    with quiet show ?thesis by simp
  next
    case (step_timeout e sq sendTo)
    from TimeoutHandler_effect [OF step_timeout(4)] step_timeout(1) waiting latest
    show ?thesis
      by (cases "out = []") auto
  next
    case (step_receive t ps)
    from HandleRead_effect [OF step_receive(3)] step_receive(1) waiting latest
    show ?thesis
      by auto
  qed
qed

text \<open>
  C8. At most one segment in flight. Take any reachable state of the sender in which an
  acknowledgment is awaited, and any stretch of a run from it through states that still await
  it, up to and including the receipt of the matching acknowledgment. The awaited sequence
  number is the last one issued. Every packet handed to the socket along the stretch is
  the awaited data segment itself (a retransmission), and at its end the next sequence
  number to issue is what it was: no segment with a new sequence number has been
  transmitted.
\<close>

theorem at_most_one_in_flight:
  assumes reach: "reachable_client (c, sim)"
    and waiting: "cli_waitingForAck c"
    and run: "waiting_run (c, sim) outs (c', sim')"
  shows "cli_nextSequence c = cli_pendingAckSequence c + 1
       \<and> set outs \<subseteq> {(data_segment (cli_pendingAckSequence c) (cli_packetSize c), cli_peerAddress c)}
       \<and> cli_nextSequence c' = cli_nextSequence c
       \<and> cli_pendingAckSequence c' = cli_pendingAckSequence c"
proof -
  have "reachable_client s \<Longrightarrow> cli_waitingForAck (fst s) \<Longrightarrow>
        set outs \<subseteq> {(data_segment (cli_pendingAckSequence (fst s)) (cli_packetSize (fst s)),
                        cli_peerAddress (fst s))}
        \<and> cli_nextSequence (fst s') = cli_nextSequence (fst s)
        \<and> cli_pendingAckSequence (fst s') = cli_pendingAckSequence (fst s)"
    if "waiting_run s outs s'" for s s'
    using that
  proof (induction rule: waiting_run.induct)
    case (wr_none s)
    show ?case by simp
  next
    case (wr_step s l out s' outs s'')
    from wr_step.prems wr_step.hyps(2)
    have one: "set out \<subseteq> {(data_segment (cli_pendingAckSequence (fst s)) (cli_packetSize (fst s)),
                               cli_peerAddress (fst s))}"
      and same: "cli_nextSequence (fst s') = cli_nextSequence (fst s)"
        "cli_pendingAckSequence (fst s') = cli_pendingAckSequence (fst s)"
        "cli_packetSize (fst s') = cli_packetSize (fst s)"
        "cli_peerAddress (fst s') = cli_peerAddress (fst s)"
      using waiting_step [of "fst s" "snd s" l out "fst s'" "snd s'"] by simp_all
    have r': "reachable_client s'"
      using wr_step.prems(1) wr_step.hyps(2) by (rule reach_step)
    show ?case
    proof (cases "cli_waitingForAck (fst s')")
      case True
      from wr_step.IH [OF r' True] one same show ?thesis by simp
    next
      case False
      with wr_step.hyps(3) have "outs = []" "s'' = s'"
        by (auto elim: waiting_run.cases)
      with one same show ?thesis by simp
    qed
  qed
  from this [OF run] reach waiting reachable_inv [OF reach] show ?thesis
    by (simp add: one_send_at_a_time_def)
qed

lemma sent_first_reachable: "reachable_client sent_first"
proof -
  have "client_step start_state
          (FireSend, snd (snd (ReliableClient_SendPacket socket_ok (fst start_state)
             (fire \<lparr>ev_ts = 2100000000, ev_uid = 0, ev_cb = SendPacketCb\<rparr> (snd start_state)))))
          (after_send start_state \<lparr>ev_ts = 2100000000, ev_uid = 0, ev_cb = SendPacketCb\<rparr>)"
    by (rule step_sendI) code_simp+
  then show ?thesis
    unfolding sent_first_def by (rule reach_step [OF start_state_reachable])
qed

lemma sent_first_timeout_step:
  "client_step sent_first (FireTimeout 0, [(data_segment 0 1024, serverAddress)]) sent_again"
proof -
  have "client_step sent_first
          (FireTimeout 0, snd (snd (ReliableClient_TimeoutHandler socket_ok 0 (fst sent_first)
             (fire \<lparr>ev_ts = 2600000000, ev_uid = 1, ev_cb = TimeoutHandlerCb 0\<rparr> (snd sent_first)))))
          (after_timeout sent_first \<lparr>ev_ts = 2600000000, ev_uid = 1, ev_cb = TimeoutHandlerCb 0\<rparr> 0)"
    by (rule step_timeoutI) code_simp+
  moreover have "snd (snd (ReliableClient_TimeoutHandler socket_ok 0 (fst sent_first)
             (fire \<lparr>ev_ts = 2600000000, ev_uid = 1, ev_cb = TimeoutHandlerCb 0\<rparr> (snd sent_first))))
        = [(data_segment 0 1024, serverAddress)]"
    by code_simp
  ultimately show ?thesis
    by (simp add: sent_again_def)
qed

lemma sent_first_fields:
  "cli_waitingForAck (fst sent_first) \<and> cli_pendingAckSequence (fst sent_first) = 0
   \<and> cli_nextSequence (fst sent_first) = 1 \<and> cli_packetSize (fst sent_first) = 1024
   \<and> cli_peerAddress (fst sent_first) = serverAddress"
  by code_simp

lemma sent_again_to_acked_first_step:
  "client_step sent_again (Receive [ack_segment 0], []) acked_first"
proof -
  have h: "ReliableClient_HandleRead (fst sent_again) ((snd sent_again)\<lparr>sim_now := 2608000000\<rparr>)
             [ack_segment 0]
           = Inr (fst acked_first, snd acked_first, [])"
    by code_simp
  have "sim_now (snd sent_again) \<le> 2608000000"
    by code_simp
  from step_receiveI [OF this h] show ?thesis
    by (simp add: acked_first_def)
qed

lemma sent_again_waiting: "cli_waitingForAck (fst sent_again)"
  by code_simp

theorem at_most_one_in_flight_witness:
  "reachable_client sent_first \<and> cli_waitingForAck (fst sent_first)
   \<and> waiting_run sent_first [(data_segment 0 1024, serverAddress)] acked_first
   \<and> cli_nextSequence (fst sent_first) = 1
   \<and> cli_nextSequence (fst acked_first) = 1 \<and> cli_pendingAckSequence (fst acked_first) = 0"
proof -
  have w: "cli_waitingForAck (fst sent_first)"
    using sent_first_fields by simp
  have "waiting_run sent_again ([] @ []) acked_first"
    using sent_again_waiting sent_again_to_acked_first_step wr_none by (rule wr_step)
  with w sent_first_timeout_step
  have "waiting_run sent_first ([(data_segment 0 1024, serverAddress)] @ [] @ []) acked_first"
    by (rule wr_step)
  then have run: "waiting_run (fst sent_first, snd sent_first)
                    [(data_segment 0 1024, serverAddress)] (fst acked_first, snd acked_first)"
    by simp
  have r: "reachable_client (fst sent_first, snd sent_first)"
    using sent_first_reachable by simp
  from at_most_one_in_flight [OF r w run] sent_first_fields sent_first_reachable run
  show ?thesis by simp
qed

section \<open>The stop-and-wait sender: events that do not concern it\<close>

lemma HandleRead1_data:
  "RemoveHeader p = Inr (h, payload) \<Longrightarrow> \<not> hdr_isAck h \<Longrightarrow>
   ReliableClient_HandleRead1 c sim p = Inr (c, sim, [])"
  by (simp add: ReliableClient_HandleRead1_def)

text \<open>
  C10. The sender acts on acknowledgments only. When every packet read is a data segment
  (its header decodes with the flag \<open>isAck\<close> false), \<^verbatim>\<open>HandleRead\<close> returns the
  sender as it was: every counter, the awaited sequence number, the waiting flag and the
  timer handle are unchanged, the simulator's queue is unchanged (no timer is cancelled, no
  send is scheduled), and nothing is handed to the socket.
\<close>

theorem sender_ignores_data_segments:
  "(\<forall>p \<in> set ps. \<exists>h payload. RemoveHeader p = Inr (h, payload) \<and> \<not> hdr_isAck h) \<Longrightarrow>
   ReliableClient_HandleRead c sim ps = Inr (c, sim, [])"
proof (induction ps)
  case Nil
  show ?case by simp
next
  case (Cons p ps)
  from Cons.prems obtain h payload where "RemoveHeader p = Inr (h, payload)" "\<not> hdr_isAck h"
    by auto
  then have "ReliableClient_HandleRead1 c sim p = Inr (c, sim, [])"
    by (rule HandleRead1_data)
  moreover have "ReliableClient_HandleRead c sim ps = Inr (c, sim, [])"
    using Cons by simp
  ultimately show ?case by simp
qed

theorem sender_ignores_data_segments_witness:
  "ReliableClient_HandleRead (fst sent_first) (snd sent_first)
     [AddHeader \<lparr>hdr_sequenceNumber = 0, hdr_ackNumber = 0, hdr_isAck = False\<rparr> [1, 2, 3],
      AddHeader \<lparr>hdr_sequenceNumber = 7, hdr_ackNumber = 0, hdr_isAck = False\<rparr> []]
   = Inr (fst sent_first, snd sent_first, [])"
  by (rule sender_ignores_data_segments) (simp add: RemoveHeader_AddHeader)

text \<open>
  C9. Stale timeouts and stale acknowledgments. When no acknowledgment is awaited, or the
  sequence number \<open>sq\<close> is not the awaited one, a timeout for \<open>sq\<close> and a received
  acknowledgment of \<open>sq\<close> both return the sender and the simulator as they were, hand
  nothing to the socket (no retransmission), schedule nothing (no next send), and the
  receive path returns a result, not an error.
\<close>

theorem stale_timeout_or_ack_is_noop:
  assumes "\<not> (cli_waitingForAck c \<and> sq = cli_pendingAckSequence c)"
  shows "ReliableClient_TimeoutHandler sendTo sq c sim = (c, sim, [])
       \<and> (\<forall>p h payload. RemoveHeader p = Inr (h, payload) \<and> hdr_isAck h \<and> hdr_ackNumber h = sq
            \<longrightarrow> ReliableClient_HandleRead1 c sim p = Inr (c, sim, [])
              \<and> ReliableClient_HandleRead c sim [p] = Inr (c, sim, []))"
  using assms
  by (auto simp add: ReliableClient_TimeoutHandler_def ReliableClient_HandleRead1_def)

theorem stale_timeout_or_ack_is_noop_witness:
  "\<not> (cli_waitingForAck (fst sent_first) \<and> 5 = cli_pendingAckSequence (fst sent_first))
   \<and> ReliableClient_TimeoutHandler socket_ok 5 (fst sent_first) (snd sent_first)
       = (fst sent_first, snd sent_first, [])
   \<and> ReliableClient_HandleRead (fst sent_first) (snd sent_first) [ack_segment 5]
       = Inr (fst sent_first, snd sent_first, [])"
proof -
  have stale: "\<not> (cli_waitingForAck (fst sent_first) \<and> 5 = cli_pendingAckSequence (fst sent_first))"
    using sent_first_fields by simp
  have ack: "RemoveHeader (ack_segment 5)
      = Inr (ReliableHeader_new\<lparr>hdr_isAck := True, hdr_ackNumber := 5\<rparr>, Create 0)"
    by (simp add: ack_segment_def RemoveHeader_AddHeader)
  from stale_timeout_or_ack_is_noop [OF stale, of socket_ok "snd sent_first"] ack stale
  show ?thesis
    by (simp add: ReliableHeader_new_def)
qed

section \<open>The stop-and-wait sender: the end of the transfer\<close>

lemma sent_again_reachable: "reachable_client sent_again"
  using sent_first_reachable sent_first_timeout_step by (rule reach_step)

lemma acked_first_reachable: "reachable_client acked_first"
  using sent_again_reachable sent_again_to_acked_first_step by (rule reach_step)

lemma acked_first_value:
  "acked_first =
     (\<lparr>cli_peerAddress = serverAddress, cli_peerPort = 0, cli_sequenceNumber = 0,
       cli_nextSequence = 1,
       cli_totalPacketsSent = 2, cli_retransmissions = 1, cli_totalBytesSent = 2066,
       cli_timerEvent = Some 2, cli_timeout = 500000000, cli_maxPackets = 2,
       cli_interval = 1000000000, cli_packetSize = 1024, cli_waitingForAck = False,
       cli_pendingAckSequence = 0\<rparr>,
      \<lparr>sim_now = 2608000000, sim_uid = 4,
       sim_events = [\<lparr>ev_ts = 3608000000, ev_uid = 3, ev_cb = SendPacketCb\<rparr>]\<rparr>)"
  by code_simp

text \<open>
  C2, as the code has it. \<^verbatim>\<open>SendPacket\<close> compares \<^verbatim>\<open>m_nextSequence\<close>, the
  number of sequence numbers issued so far (retransmissions do not count), with
  \<^verbatim>\<open>m_maxPackets\<close>. Once it has reached the limit a call transmits nothing, schedules
  nothing and leaves the sender as it was, so every later call does the same.
\<close>

theorem send_at_sequence_limit_is_noop:
  "cli_maxPackets c \<le> cli_nextSequence c \<Longrightarrow>
   ReliableClient_SendPacket sendTo c sim = (c, sim, [])
   \<and> ReliableClient_SendPacket_times n sendTo c sim = (c, sim, [])"
proof -
  assume a: "cli_maxPackets c \<le> cli_nextSequence c"
  then have one: "ReliableClient_SendPacket sendTo c sim = (c, sim, [])"
    by (simp add: ReliableClient_SendPacket_def)
  have "ReliableClient_SendPacket_times n sendTo c sim = (c, sim, [])"
    by (induction n) (simp_all add: one)
  with one show ?thesis by simp
qed

lemma acked_second_value:
  "acked_second =
     (\<lparr>cli_peerAddress = serverAddress, cli_peerPort = 0, cli_sequenceNumber = 0,
       cli_nextSequence = 2,
       cli_totalPacketsSent = 3, cli_retransmissions = 1, cli_totalBytesSent = 3099,
       cli_timerEvent = Some 4, cli_timeout = 500000000, cli_maxPackets = 2,
       cli_interval = 1000000000, cli_packetSize = 1024, cli_waitingForAck = False,
       cli_pendingAckSequence = 1\<rparr>,
      \<lparr>sim_now = 3616000000, sim_uid = 6,
       sim_events = [\<lparr>ev_ts = 4616000000, ev_uid = 5, ev_cb = SendPacketCb\<rparr>]\<rparr>)"
  by code_simp

theorem send_at_sequence_limit_is_noop_witness:
  "cli_maxPackets (fst acked_second) \<le> cli_nextSequence (fst acked_second)
   \<and> ReliableClient_SendPacket socket_ok (fst acked_second)
         (fire \<lparr>ev_ts = 4616000000, ev_uid = 5, ev_cb = SendPacketCb\<rparr> (snd acked_second))
       = (fst acked_second,
          fire \<lparr>ev_ts = 4616000000, ev_uid = 5, ev_cb = SendPacketCb\<rparr> (snd acked_second), [])
   \<and> ReliableClient_SendPacket_times 3 socket_ok (fst acked_second)
         (fire \<lparr>ev_ts = 4616000000, ev_uid = 5, ev_cb = SendPacketCb\<rparr> (snd acked_second))
       = (fst acked_second,
          fire \<lparr>ev_ts = 4616000000, ev_uid = 5, ev_cb = SendPacketCb\<rparr> (snd acked_second), [])"
proof -
  have h: "cli_maxPackets (fst acked_second) \<le> cli_nextSequence (fst acked_second)"
    by (simp add: acked_second_value)
  from send_at_sequence_limit_is_noop [OF h] h show ?thesis
    by blast
qed

text \<open>
  The count of transmissions, \<^verbatim>\<open>m_totalPacketsSent\<close>, is not what the check reads.
  After one send, one retransmission and the acknowledgment, two packets have been sent
  with \<^verbatim>\<open>MaxPackets = 2\<close>, and the next \<^verbatim>\<open>SendPacket\<close> still transmits
  sequence number 1.
\<close>

theorem send_with_total_at_limit_counterexample:
  "reachable_client acked_first
   \<and> cli_maxPackets (fst acked_first) \<le> cli_totalPacketsSent (fst acked_first)
   \<and> snd (snd (ReliableClient_SendPacket socket_ok (fst acked_first)
                 (fire \<lparr>ev_ts = 3608000000, ev_uid = 3, ev_cb = SendPacketCb\<rparr> (snd acked_first))))
       = [(data_segment 1 1024, serverAddress)]"
proof -
  have "cli_maxPackets (fst acked_first) \<le> cli_totalPacketsSent (fst acked_first)"
    by (simp add: acked_first_value)
  moreover have "snd (snd (ReliableClient_SendPacket socket_ok (fst acked_first)
                 (fire \<lparr>ev_ts = 3608000000, ev_uid = 3, ev_cb = SendPacketCb\<rparr> (snd acked_first))))
       = [(data_segment 1 1024, serverAddress)]"
    by code_simp
  ultimately show ?thesis
    using acked_first_reachable by simp
qed

section \<open>The receiver\<close>

text \<open>
  C5, as the code has it. For a data segment, the byte counter grows by the size of the
  payload whatever the sequence number is: it is updated before the sequence number is
  looked at. When the sequence number is the expected one, the packet counter and the
  expected sequence number each grow by one (a 32-bit addition) and one acknowledgment
  carrying that sequence number goes back to the address the segment came from. Otherwise
  nothing is sent and the packet counter and the expected sequence number stay as they were.
\<close>

theorem server_accepts_or_drops_data_segment:
  assumes "RemoveHeader p = Inr (h, payload)" and "\<not> hdr_isAck h"
  shows "ReliableServer_HandleRead1 s (p, src) =
     Inr (if hdr_sequenceNumber h = srv_expectedSequence s
          then (s\<lparr>srv_expectedSequence := srv_expectedSequence s + 1,
                 srv_totalPacketsReceived := srv_totalPacketsReceived s + 1,
                 srv_totalBytesReceived := srv_totalBytesReceived s + GetSize payload\<rparr>,
                [(ack_segment (hdr_sequenceNumber h), src)])
          else (s\<lparr>srv_totalBytesReceived := srv_totalBytesReceived s + GetSize payload\<rparr>, []))"
  using assms
  by (simp add: ReliableServer_HandleRead1_def ack_segment_def Let_def)

theorem server_accepts_or_drops_data_segment_witness:
  "ReliableServer_HandleRead1 ReliableServer_new (data_segment 0 1024, clientAddress) =
     Inr (\<lparr>srv_expectedSequence = 1, srv_totalPacketsReceived = 1, srv_totalBytesReceived = 1024\<rparr>,
          [(ack_segment 0, clientAddress)])"
proof -
  have d: "RemoveHeader (data_segment 0 1024)
      = Inr (ReliableHeader_new\<lparr>hdr_sequenceNumber := 0, hdr_isAck := False\<rparr>, Create 1024)"
    by (simp add: data_segment_def RemoveHeader_AddHeader)
  have "\<not> hdr_isAck (ReliableHeader_new\<lparr>hdr_sequenceNumber := 0, hdr_isAck := False\<rparr>)"
    by simp
  from server_accepts_or_drops_data_segment [OF d this, of ReliableServer_new clientAddress]
  show ?thesis
    by (simp add: ReliableServer_new_def ReliableHeader_new_def GetSize_def Create_def)
qed

text \<open>A segment with sequence number 5 reaches a fresh receiver, which expects 0: nothing
  is acknowledged, and the byte counter goes from 0 to 1024.\<close>

theorem server_counts_bytes_of_dropped_segment_counterexample:
  "ReliableServer_HandleRead1 ReliableServer_new (data_segment 5 1024, clientAddress) =
     Inr (\<lparr>srv_expectedSequence = 0, srv_totalPacketsReceived = 0, srv_totalBytesReceived = 1024\<rparr>, [])
   \<and> srv_totalBytesReceived ReliableServer_new = 0"
  by code_simp

section \<open>Packets shorter than the header\<close>

lemma Deserialize_short: "length p < 9 \<Longrightarrow> Deserialize p = Inl BufferOverrun"
  unfolding Deserialize_def
  by (cases p rule: ReadNtohU32.cases; simp; rename_tac q; case_tac q rule: ReadNtohU32.cases; simp)

text \<open>
  C4. What the code does with a packet of fewer than 9 bytes: \<^verbatim>\<open>Deserialize\<close>
  reads past its end. Neither \<^verbatim>\<open>Deserialize\<close> nor the two receive loops that
  call \<^verbatim>\<open>RemoveHeader\<close> compare the packet's size with the header's, so the
  outcome is the overrun, never a rejection of the segment.
\<close>

theorem short_packet_overruns_buffer:
  "length p < 9 \<Longrightarrow>
     Deserialize p = Inl BufferOverrun
   \<and> RemoveHeader p = Inl BufferOverrun
   \<and> ReliableServer_HandleRead s [(p, src)] = Inl BufferOverrun
   \<and> ReliableClient_HandleRead c sim [p] = Inl BufferOverrun"
  by (simp add: Deserialize_short RemoveHeader_def ReliableServer_HandleRead1_def
      ReliableClient_HandleRead1_def)

theorem short_packet_overruns_buffer_witness:
  "length [1, 2, 3 :: u8] < 9
   \<and> Deserialize [1, 2, 3] = Inl BufferOverrun
   \<and> Inl BufferOverrun \<noteq> (Inl MalformedSegment :: error + (ReliableHeader \<times> u32))
   \<and> ReliableServer_HandleRead ReliableServer_new [([1, 2, 3], clientAddress)] = Inl BufferOverrun"
  using short_packet_overruns_buffer [of "[1, 2, 3]" ReliableServer_new clientAddress]
  by simp

text \<open>The receiver of the rate-controlled sender does reject a packet shorter than its own
  header: it counts nothing and logs that the packet is too small.\<close>

lemma EnhancedUdpServer_rejects_short_packet:
  "length p < 16 \<Longrightarrow> EnhancedUdpServer_HandleRead1 st p = (st, PacketTooSmall)"
  by (simp add: EnhancedUdpServer_HandleRead1_def CustomHeader_GetSize_def GetSize_def
      word_le_nat_alt unat_of_nat)

section \<open>The error-free run of ten segments\<close>

lemma GetSize_AddHeader: "GetSize (AddHeader h p) = GetSize p + 9"
  by (simp add: GetSize_def AddHeader_def length_Serialize)

lemma GetSize_Create: "GetSize (Create n) = n"
  by (simp add: GetSize_def Create_def)

lemma run_numeral:
  "run (numeral k) ch stop s =
     (case next_event (sim_events (sys_sim s)) of
        None \<Rightarrow> Some (Inr s)
      | Some e \<Rightarrow>
          if stop \<le> ev_ts e then Some (Inr s)
          else (case dispatch ch e s of
                  Inl err \<Rightarrow> Some (Inl err)
                | Inr s' \<Rightarrow> run (pred_numeral k) ch stop s'))"
  by (simp add: numeral_eq_Suc)

lemma length_AddHeader: "length (AddHeader h p) = 9 + length p"
  by (simp add: AddHeader_def length_Serialize)

lemma length_Create: "length (Create n) = unat n"
  by (simp add: Create_def)

text \<open>
  C6, as the code has it, for a sender whose remote is the server's socket address (the
  one-argument \<^verbatim>\<open>SetRemote\<close>). \<^verbatim>\<open>MaxPackets = 10\<close>, a timeout of 0.5 s, an
  interval of 1 s, any packet size \<open>sz\<close> that fits a UDP datagram with the header, and a
  channel that loses nothing and delivers each packet after a latency of its own, positive
  and less than half the timeout. The simulation runs until no event is left. Exactly the
  ten data segments 0 to 9 have then gone out, once each; exactly the ten acknowledgments
  0 to 9 have been delivered to the client; the retransmission counter is 0; and the byte
  counter is ten times the size of a packet with its 9-byte header, \<open>10 * (sz + 9)\<close>,
  since \<^verbatim>\<open>GetSize\<close> is taken after \<^verbatim>\<open>AddHeader\<close>.
\<close>

theorem lossless_run_of_ten_segments:
  assumes lat: "\<And>k p. length p \<le> 65507 \<Longrightarrow> 0 < lat k p \<and> 2 * lat k p < MilliSeconds 500"
    and fits: "unat sz + 9 \<le> 65507"
  shows "(case run 40 (error_free lat) (Seconds 30)
                 (scenario (ReliableClient_SetRemote serverAddress) 10 sz (Seconds 1)
                    (MilliSeconds 500)) of
            Some (Inr s) \<Rightarrow>
              sim_events (sys_sim s) = []
              \<and> sys_clientTx s = [data_segment 0 sz, data_segment 1 sz, data_segment 2 sz, data_segment 3 sz, data_segment 4 sz, data_segment 5 sz, data_segment 6 sz, data_segment 7 sz, data_segment 8 sz, data_segment 9 sz]
              \<and> sys_clientRx s = [ack_segment 0, ack_segment 1, ack_segment 2, ack_segment 3, ack_segment 4, ack_segment 5, ack_segment 6, ack_segment 7, ack_segment 8, ack_segment 9]
              \<and> cli_totalPacketsSent (sys_client s) = 10
              \<and> cli_retransmissions (sys_client s) = 0
              \<and> cli_totalBytesSent (sys_client s) = 10 * (sz + 9)
              \<and> srv_totalPacketsReceived (sys_server s) = 10
          | _ \<Rightarrow> False)"
proof -
  have datas: "0 < lat k (data_segment q sz) \<and> 2 * lat k (data_segment q sz) < MilliSeconds 500"
    for k q
    using fits by (intro lat) (simp add: data_segment_def length_AddHeader length_Create)
  have acks: "0 < lat k (ack_segment q) \<and> 2 * lat k (ack_segment q) < MilliSeconds 500"
    for k q
    by (intro lat) (simp add: ack_segment_def length_AddHeader length_Create)
  note latencies =
    datas [of 0 0] acks [of 1 0]
    datas [of 2 1] acks [of 3 1]
    datas [of 4 2] acks [of 5 2]
    datas [of 6 3] acks [of 7 3]
    datas [of 8 4] acks [of 9 4]
    datas [of 10 5] acks [of 11 5]
    datas [of 12 6] acks [of 13 6]
    datas [of 14 7] acks [of 15 7]
    datas [of 16 8] acks [of 17 8]
    datas [of 18 9] acks [of 19 9]
  from latencies fits show ?thesis
    by (simp add: run_numeral scenario_def error_free_def dispatch_def fire_def earlier_def
        UdpSocket_SendTo_def length_AddHeader length_Create
        ReliableClient_SetRemote_def
        ReliableClient_StartApplication_def ReliableClient_new_def ReliableServer_new_def
        ReliableClient_SendPacket_def ReliableClient_HandleRead1_def
        ReliableClient_TimeoutHandler_def ReliableServer_HandleRead1_def
        Schedule_def IsPending_def Cancel_def Seconds_def MilliSeconds_def
        serverAddress_def clientAddress_def RemoveHeader_AddHeader GetSize_AddHeader
        GetSize_Create ReliableHeader_new_def Let_def data_segment_def ack_segment_def
        word_le_nat_alt word_less_nat_alt numeral_2_eq_2 [symmetric])
qed

text \<open>The link of \<^verbatim>\<open>main\<close> is such a channel for every packet a UDP socket sends.\<close>

text \<open>The link of \<^verbatim>\<open>main\<close> is such a channel for every packet a UDP socket sends.\<close>

lemma p2p_link_latency:
  "length p \<le> 65507 \<Longrightarrow> 0 < p2p_link k p \<and> 2 * p2p_link k p < MilliSeconds 500"
  by (simp add: p2p_link_def MilliSeconds_def)

theorem lossless_run_of_ten_segments_witness:
  "unat (1024 :: u32) + 9 \<le> 65507
   \<and> (case run 40 (error_free p2p_link) (Seconds 30)
               (scenario (ReliableClient_SetRemote serverAddress) 10 1024 (Seconds 1)
                  (MilliSeconds 500)) of
        Some (Inr s) \<Rightarrow>
          length (sys_clientTx s) = 10 \<and> length (sys_clientRx s) = 10
          \<and> cli_totalPacketsSent (sys_client s) = 10
          \<and> cli_retransmissions (sys_client s) = 0
          \<and> cli_totalBytesSent (sys_client s) = 10330
      | _ \<Rightarrow> False)"
proof -
  have fits: "unat (1024 :: u32) + 9 \<le> 65507"
    by simp
  from lossless_run_of_ten_segments [of p2p_link 1024, OF p2p_link_latency fits] fits
  show ?thesis
    by (auto split: option.splits sum.splits)
qed

text \<open>
  The run as \<^verbatim>\<open>main\<close> sets it up, over its own link with no errors:
  \<^verbatim>\<open>SetRemote(ip, 9)\<close> leaves the client with the server's bare IPv4 address,
  every \<^verbatim>\<open>SendTo\<close> is refused, and up to the stop time of 30 s no data segment has
  gone out and no acknowledgment has come back, while the client has counted 56 packets
  as sent and 55 retransmissions.
\<close>

lemma main_run_sends_nothing:
  "(case run 100 (error_free p2p_link) (Seconds 30)
            (scenario main_SetRemote 10 1024 (Seconds 1) (MilliSeconds 500)) of
      Some (Inr s) \<Rightarrow>
        sys_clientTx s = [] \<and> sys_clientRx s = []
        \<and> srv_totalPacketsReceived (sys_server s) = 0
        \<and> cli_nextSequence (sys_client s) = 1
        \<and> cli_totalPacketsSent (sys_client s) = 56
        \<and> cli_retransmissions (sys_client s) = 55
    | _ \<Rightarrow> False)"
  by (simp add: run_numeral scenario_def error_free_def dispatch_def fire_def earlier_def
        UdpSocket_SendTo_def length_AddHeader length_Create
        ReliableClient_SetRemote_def ReliableClient_SetRemote_port_def main_SetRemote_def
        ReliableClient_StartApplication_def ReliableClient_new_def ReliableServer_new_def
        ReliableClient_SendPacket_def ReliableClient_HandleRead1_def
        ReliableClient_TimeoutHandler_def ReliableServer_HandleRead1_def
        Schedule_def IsPending_def Cancel_def Seconds_def MilliSeconds_def
        serverAddress_def clientAddress_def RemoveHeader_AddHeader GetSize_AddHeader
        GetSize_Create ReliableHeader_new_def Let_def data_segment_def ack_segment_def
        word_le_nat_alt word_less_nat_alt)

text \<open>
  With the server's socket address as the remote, the same link and the default packet
  size of 1024 bytes, the ten segments are delivered and acknowledged, and the byte counter
  ends at 10330, not at 10 * 1024 = 10240.
\<close>

theorem total_bytes_sent_counterexample:
  "(case run 40 (error_free p2p_link) (Seconds 30)
            (scenario (ReliableClient_SetRemote serverAddress) 10 1024 (Seconds 1)
               (MilliSeconds 500)) of
      Some (Inr s) \<Rightarrow>
        cli_totalPacketsSent (sys_client s) = 10
        \<and> cli_retransmissions (sys_client s) = 0
        \<and> length (sys_clientRx s) = 10
        \<and> cli_totalBytesSent (sys_client s) = 10330
        \<and> cli_totalBytesSent (sys_client s) \<noteq> 10 * cli_packetSize (sys_client s)
    | _ \<Rightarrow> False)"
  by (simp add: run_numeral p2p_link_def scenario_def error_free_def dispatch_def fire_def earlier_def
        UdpSocket_SendTo_def length_AddHeader length_Create
        ReliableClient_SetRemote_def ReliableClient_SetRemote_port_def main_SetRemote_def
        ReliableClient_StartApplication_def ReliableClient_new_def ReliableServer_new_def
        ReliableClient_SendPacket_def ReliableClient_HandleRead1_def
        ReliableClient_TimeoutHandler_def ReliableServer_HandleRead1_def
        Schedule_def IsPending_def Cancel_def Seconds_def MilliSeconds_def
        serverAddress_def clientAddress_def RemoveHeader_AddHeader GetSize_AddHeader
        GetSize_Create ReliableHeader_new_def Let_def data_segment_def ack_segment_def
        word_le_nat_alt word_less_nat_alt)

section \<open>The rate-controlled sender\<close>

lemma successful_send_loss_credit:
  assumes "euc_packetsSent c < euc_maxPackets c"
    and "0 < send \<lparr>ch_sequenceNumber = euc_sequenceNumber c, ch_payloadSize = euc_packetSize c\<rparr>"
  shows "totalLostPackets (fst (snd (EnhancedUdpClient_SendPacket send (c, st)))) =
           totalLostPackets st +
             (if (euc_packetsSent c + 1) mod 15 = 0 \<and> (euc_packetsSent c + 1) mod 40 = 0
              then 2 else 0)"
proof -
  from assms(1) have "0 < euc_packetsSent c + 1"
    by (metis add.commute neg_eq_iff_add_eq_0 word_greater_zero_iff word_order.extremum_strict)
  with assms show ?thesis
    by (simp add: EnhancedUdpClient_SendPacket_def CongestionControl_def Let_def
        ScheduleTransmit_def not_le split: prod.splits)
qed

text \<open>
  C1. What the code does at the 40th successful send. \<^verbatim>\<open>CongestionControl\<close>, which
  holds the test \<^verbatim>\<open>m_packetsSent % 40 == 0\<close>, is called only when
  \<^verbatim>\<open>m_packetsSent % 15 == 0\<close>. After 40 successful sends from the constructor's
  state no loss has been simulated: no lost-packet credit is recorded, the threshold is
  still 32 and the window is 8, not 4.
\<close>

theorem no_simulated_loss_at_send_40:
  "(case EnhancedUdpClient_run 40 (\<lambda>h. 1024)
           (EnhancedUdpClient_StartApplication EnhancedUdpClient_new, Stats_reset) of
      (c, st, out) \<Rightarrow>
        (euc_packetsSent c, length out, totalLostPackets st, euc_cwnd c, euc_ssthresh c,
         euc_congestionAvoidance c))
     = (40, 40, 0, 8, 32, False)"
  by code_simp

text \<open>The first simulated loss comes with send number 120, the first multiple of both 15
  and 40; with the default \<^verbatim>\<open>MaxPackets = 100\<close> a run ends without any.\<close>

lemma first_simulated_loss_at_send_120:
  "(case EnhancedUdpClient_run 119 (\<lambda>h. 1024)
           (EnhancedUdpClient_StartApplication (EnhancedUdpClient_new\<lparr>euc_maxPackets := 200\<rparr>),
            Stats_reset) of
      (c, st, out) \<Rightarrow>
        (euc_packetsSent c, totalLostPackets st, euc_cwnd c, euc_ssthresh c))
     = (119, 0, 18, 32)
   \<and> (case EnhancedUdpClient_run 120 (\<lambda>h. 1024)
           (EnhancedUdpClient_StartApplication (EnhancedUdpClient_new\<lparr>euc_maxPackets := 200\<rparr>),
            Stats_reset) of
      (c, st, out) \<Rightarrow>
        (euc_packetsSent c, totalLostPackets st, euc_cwnd c, euc_ssthresh c,
         euc_congestionAvoidance c))
     = (120, 2, 4, 10, False)"
  by code_simp

lemma default_run_has_no_simulated_loss:
  "(case EnhancedUdpClient_run 1000 (\<lambda>h. 1024)
           (EnhancedUdpClient_StartApplication EnhancedUdpClient_new, Stats_reset) of
      (c, st, out) \<Rightarrow> (euc_packetsSent c, length out, totalLostPackets st, euc_sendEvent c))
     = (100, 100, 0, False)"
  by code_simp

section \<open>Failed sends\<close>

text \<open>
  C7, as the code has it. In the rate-controlled sender, a send for which the socket
  reports a failure (a result that is not positive) adds one to the loss counter
  \<^verbatim>\<open>totalLostPackets\<close> and leaves the count of packets sent, the window, the
  threshold, the phase and the interval as they were; the sequence number of the failed
  packet is used up. The stop-and-wait sender does not look at what the socket returns
  and has no loss counter. Whatever the socket reports, a failure included,
  \<^verbatim>\<open>SendPacket\<close> with a sequence number left to send counts the packet and its
  bytes as sent, awaits the acknowledgment of that sequence number and arms the timer for
  it; and \<^verbatim>\<open>TimeoutHandler\<close> for the awaited sequence number counts a
  retransmission, counts the packet and its bytes as sent and arms the timer again.
\<close>

theorem send_failure_effects:
  assumes more: "euc_packetsSent c < euc_maxPackets c"
    and failed: "send \<lparr>ch_sequenceNumber = euc_sequenceNumber c, ch_payloadSize = euc_packetSize c\<rparr> \<le> 0"
    and room: "cli_nextSequence rc < cli_maxPackets rc"
    and awaited: "cli_waitingForAck tc"
  shows "(case EnhancedUdpClient_SendPacket send (c, st) of
            (c', st', out) \<Rightarrow>
              totalLostPackets st' = totalLostPackets st + 1
              \<and> euc_packetsSent c' = euc_packetsSent c
              \<and> euc_cwnd c' = euc_cwnd c \<and> euc_ssthresh c' = euc_ssthresh c
              \<and> euc_congestionAvoidance c' = euc_congestionAvoidance c
              \<and> euc_interval c' = euc_interval c
              \<and> euc_sequenceNumber c' = euc_sequenceNumber c + 1)
       \<and> ReliableClient_SendPacket sendTo rc sim =
           (rc\<lparr>cli_nextSequence := cli_nextSequence rc + 1,
               cli_totalPacketsSent := cli_totalPacketsSent rc + 1,
               cli_totalBytesSent := cli_totalBytesSent rc + (cli_packetSize rc + 9),
               cli_timerEvent := Some (sim_uid sim),
               cli_waitingForAck := True,
               cli_pendingAckSequence := cli_nextSequence rc\<rparr>,
            snd (Schedule (cli_timeout rc) (TimeoutHandlerCb (cli_nextSequence rc)) sim),
            [(data_segment (cli_nextSequence rc) (cli_packetSize rc), cli_peerAddress rc)])
       \<and> ReliableClient_TimeoutHandler sendTo (cli_pendingAckSequence tc) tc tsim =
           (tc\<lparr>cli_totalPacketsSent := cli_totalPacketsSent tc + 1,
               cli_retransmissions := cli_retransmissions tc + 1,
               cli_totalBytesSent := cli_totalBytesSent tc + (cli_packetSize tc + 9),
               cli_timerEvent := Some (sim_uid tsim)\<rparr>,
            snd (Schedule (cli_timeout tc) (TimeoutHandlerCb (cli_pendingAckSequence tc)) tsim),
            [(data_segment (cli_pendingAckSequence tc) (cli_packetSize tc), cli_peerAddress tc)])"
proof -
  have rate: "(case EnhancedUdpClient_SendPacket send (c, st) of
            (c', st', out) \<Rightarrow>
              totalLostPackets st' = totalLostPackets st + 1
              \<and> euc_packetsSent c' = euc_packetsSent c
              \<and> euc_cwnd c' = euc_cwnd c \<and> euc_ssthresh c' = euc_ssthresh c
              \<and> euc_congestionAvoidance c' = euc_congestionAvoidance c
              \<and> euc_interval c' = euc_interval c
              \<and> euc_sequenceNumber c' = euc_sequenceNumber c + 1)"
    using more failed by (simp add: EnhancedUdpClient_SendPacket_def not_le Let_def)
  have first: "ReliableClient_SendPacket sendTo rc sim =
           (rc\<lparr>cli_nextSequence := cli_nextSequence rc + 1,
               cli_totalPacketsSent := cli_totalPacketsSent rc + 1,
               cli_totalBytesSent := cli_totalBytesSent rc + (cli_packetSize rc + 9),
               cli_timerEvent := Some (sim_uid sim),
               cli_waitingForAck := True,
               cli_pendingAckSequence := cli_nextSequence rc\<rparr>,
            snd (Schedule (cli_timeout rc) (TimeoutHandlerCb (cli_nextSequence rc)) sim),
            [(data_segment (cli_nextSequence rc) (cli_packetSize rc), cli_peerAddress rc)])"
    using room
    by (simp add: ReliableClient_SendPacket_def Let_def Schedule_def data_segment_def
        GetSize_AddHeader GetSize_Create not_le)
  have again: "ReliableClient_TimeoutHandler sendTo (cli_pendingAckSequence tc) tc tsim =
           (tc\<lparr>cli_totalPacketsSent := cli_totalPacketsSent tc + 1,
               cli_retransmissions := cli_retransmissions tc + 1,
               cli_totalBytesSent := cli_totalBytesSent tc + (cli_packetSize tc + 9),
               cli_timerEvent := Some (sim_uid tsim)\<rparr>,
            snd (Schedule (cli_timeout tc) (TimeoutHandlerCb (cli_pendingAckSequence tc)) tsim),
            [(data_segment (cli_pendingAckSequence tc) (cli_packetSize tc), cli_peerAddress tc)])"
    using awaited
    by (simp add: ReliableClient_TimeoutHandler_def Let_def Schedule_def data_segment_def
        GetSize_AddHeader GetSize_Create)
  from rate first again show ?thesis
    by (intro conjI)
qed

lemma start_state_fields:
  "cli_nextSequence (fst start_state) = 0 \<and> cli_maxPackets (fst start_state) = 2
   \<and> \<not> cli_waitingForAck (fst start_state) \<and> cli_totalPacketsSent (fst start_state) = 0"
  by code_simp

theorem send_failure_effects_witness:
  "euc_packetsSent EnhancedUdpClient_new < euc_maxPackets EnhancedUdpClient_new
   \<and> (- 1 :: int) \<le> 0
   \<and> cli_nextSequence (fst start_state) < cli_maxPackets (fst start_state)
   \<and> cli_waitingForAck (fst sent_first)
   \<and> (case EnhancedUdpClient_SendPacket (\<lambda>h. - 1) (EnhancedUdpClient_new, Stats_reset) of
        (c', st', out) \<Rightarrow>
          totalLostPackets st' = 1 \<and> euc_packetsSent c' = 0 \<and> euc_cwnd c' = 4
          \<and> euc_ssthresh c' = 32 \<and> euc_sequenceNumber c' = 1)
   \<and> cli_waitingForAck (fst (ReliableClient_SendPacket (\<lambda>p. - 1) (fst start_state) (snd start_state)))
   \<and> cli_totalPacketsSent
        (fst (ReliableClient_SendPacket (\<lambda>p. - 1) (fst start_state) (snd start_state))) = 1
   \<and> cli_retransmissions
        (fst (ReliableClient_TimeoutHandler (\<lambda>p. - 1) 0 (fst sent_first) (snd sent_first))) = 1"
proof -
  have a: "euc_packetsSent EnhancedUdpClient_new < euc_maxPackets EnhancedUdpClient_new"
    by (simp add: EnhancedUdpClient_new_def)
  have b: "(\<lambda>h. - 1 :: int) \<lparr>ch_sequenceNumber = euc_sequenceNumber EnhancedUdpClient_new,
              ch_payloadSize = euc_packetSize EnhancedUdpClient_new\<rparr> \<le> 0"
    by simp
  have r: "cli_nextSequence (fst start_state) < cli_maxPackets (fst start_state)"
    using start_state_fields by simp
  have w: "cli_waitingForAck (fst sent_first)"
    using sent_first_fields by simp
  have z: "cli_retransmissions (fst sent_first) = 0"
    by code_simp
  from send_failure_effects [OF a b r w, of Stats_reset "\<lambda>p. - 1" "snd start_state"
      "snd sent_first"]
    a r w z sent_first_fields start_state_fields
  show ?thesis
    by (auto simp: EnhancedUdpClient_new_def Stats_reset_def)
qed

text \<open>
  What the rate-controlled sender does after a failed send: nothing. The branch of
  \<^verbatim>\<open>SendPacket\<close> taken on a failure does not call \<^verbatim>\<open>ScheduleTransmit\<close>, as
  the branch taken on a success does, so no send event is pending and the simulator has
  nothing of the sender left to run.
\<close>

lemma run_without_send_event:
  "\<not> euc_sendEvent (fst cs) \<Longrightarrow> EnhancedUdpClient_run n send cs = (fst cs, snd cs, [])"
  by (cases n) simp_all

lemma failed_send_stops:
  assumes "euc_sendEvent c" and "euc_packetsSent c < euc_maxPackets c"
    and "send \<lparr>ch_sequenceNumber = euc_sequenceNumber c, ch_payloadSize = euc_packetSize c\<rparr> \<le> 0"
  shows "EnhancedUdpClient_run (Suc n) send (c, st) =
           (c\<lparr>euc_sendEvent := False, euc_sequenceNumber := euc_sequenceNumber c + 1\<rparr>,
            st\<lparr>totalLostPackets := totalLostPackets st + 1\<rparr>,
            [\<lparr>ch_sequenceNumber = euc_sequenceNumber c, ch_payloadSize = euc_packetSize c\<rparr>])"
  using assms
  by (simp add: EnhancedUdpClient_SendPacket_def run_without_send_event not_le Let_def)

text \<open>
  A stop-and-wait sender whose first send fails at the socket does exactly what it does
  when the send succeeds: it counts the packet as sent, moves to waiting for
  acknowledgment 0 and arms the timer. A rate-controlled sender whose first send fails
  records one lost packet and schedules nothing: of the next ten events none sends.
\<close>

theorem failed_send_changes_state_counterexample:
  "\<not> cli_waitingForAck (fst start_state)
   \<and> ReliableClient_SendPacket (\<lambda>p. - 1) (fst start_state)
         (fire \<lparr>ev_ts = 2100000000, ev_uid = 0, ev_cb = SendPacketCb\<rparr> (snd start_state))
       = (fst sent_first, snd sent_first, [(data_segment 0 1024, serverAddress)])
   \<and> cli_waitingForAck (fst sent_first)
   \<and> cli_totalPacketsSent (fst sent_first) = 1
   \<and> cli_timerEvent (fst sent_first) = Some 1
   \<and> (case EnhancedUdpClient_run 10 (\<lambda>h. - 1)
              (EnhancedUdpClient_StartApplication EnhancedUdpClient_new, Stats_reset) of
        (c, st, out) \<Rightarrow>
          (euc_packetsSent c, euc_sequenceNumber c, length out, totalLostPackets st,
           euc_sendEvent c))
       = (0, 1, 1, 1, False)"
  by code_simp

end
